theory Spec2Isabelle
  imports Complex_Main "HOL-Library.AList"
begin

section \<open>Strings of the platform\<close>

text \<open>
  The pool works on JavaScript strings. They are modelled as \<^typ>\<open>string\<close>, read as
  ASCII text: the white space of \<open>trim\<close> and the letters of \<open>toLowerCase\<close> are the
  ASCII ones.
\<close>

definition LF :: char where
  "LF = CHR 0x0A"

definition CR :: char where
  "CR = CHR 0x0D"

definition is_space :: "char \<Rightarrow> bool" where
  "is_space c = (c = CHR 0x09 \<or> c = CHR 0x0A \<or> c = CHR 0x0B \<or> c = CHR 0x0C
     \<or> c = CHR 0x0D \<or> c = CHR 0x20)"

text \<open>\<open>String.prototype.trim\<close>: white space is dropped at both ends.\<close>

definition trim :: "string \<Rightarrow> string" where
  "trim s = rev (dropWhile is_space (rev (dropWhile is_space s)))"

definition lower_char :: "char \<Rightarrow> char" where
  "lower_char c =
     (let n = (of_char c :: nat) in if 65 \<le> n \<and> n \<le> 90 then char_of (n + 32) else c)"

text \<open>\<open>String.prototype.toLowerCase\<close>.\<close>

definition toLowerCase :: "string \<Rightarrow> string" where
  "toLowerCase s = map lower_char s"

fun startsWith :: "string \<Rightarrow> string \<Rightarrow> bool" where
  "startsWith s [] = True"
| "startsWith [] (p # ps) = False"
| "startsWith (c # cs) (p # ps) = (c = p \<and> startsWith cs ps)"

text \<open>\<open>String.prototype.includes\<close>: the pattern occurs at some position of the text.\<close>

fun str_includes :: "string \<Rightarrow> string \<Rightarrow> bool" where
  "str_includes [] p = (p = [])"
| "str_includes (c # cs) p = (startsWith (c # cs) p \<or> str_includes cs p)"

text \<open>
  \<open>String.prototype.split(/\r?\n/)\<close>: the text is cut at every line feed, and a carriage
  return right before the line feed goes with it. \<open>cur\<close> holds the current piece,
  reversed.
\<close>

fun split_lines_from :: "string \<Rightarrow> string \<Rightarrow> string list" where
  "split_lines_from cur [] = [rev cur]"
| "split_lines_from cur (c # cs) =
     (if c = LF then rev cur # split_lines_from [] cs
      else (case cs of
              d # ds \<Rightarrow>
                if c = CR \<and> d = LF then rev cur # split_lines_from [] ds
                else split_lines_from (c # cur) cs
            | [] \<Rightarrow> split_lines_from (c # cur) cs))"

definition split_lines :: "string \<Rightarrow> string list" where
  "split_lines s = split_lines_from [] s"

text \<open>\<open>Array.prototype.join\<close>.\<close>

fun join :: "string \<Rightarrow> string list \<Rightarrow> string" where
  "join sep [] = []"
| "join sep [x] = x"
| "join sep (x # y # ys) = x @ sep @ join sep (y # ys)"

section \<open>JSON values and \<open>JSON.parse\<close>\<close>

text \<open>
  \<open>JSON.parse\<close> belongs to the platform, not to the pool: \<open>extractToken\<close> below takes
  the parser as a parameter, and \<open>JSON_parse\<close> is a model of the platform's parser
  (the grammar of RFC 8259) to run it on concrete texts. A number is kept as its
  literal; an object keeps one value per key, the last one written.
\<close>

datatype json =
    JNull
  | JBool bool
  | JNumber string
  | JString string
  | JArray "json list"
  | JObject "(string \<times> json) list"

definition is_json_ws :: "char \<Rightarrow> bool" where
  "is_json_ws c = (c = CHR 0x20 \<or> c = CHR 0x09 \<or> c = CHR 0x0A \<or> c = CHR 0x0D)"

definition skip_ws :: "string \<Rightarrow> string" where
  "skip_ws s = dropWhile is_json_ws s"

definition is_digit :: "char \<Rightarrow> bool" where
  "is_digit c = (let n = (of_char c :: nat) in 48 \<le> n \<and> n \<le> 57)"

definition hex_val :: "char \<Rightarrow> nat option" where
  "hex_val c =
     (let n = (of_char c :: nat) in
      if 48 \<le> n \<and> n \<le> 57 then Some (n - 48)
      else if 65 \<le> n \<and> n \<le> 70 then Some (n - 55)
      else if 97 \<le> n \<and> n \<le> 102 then Some (n - 87)
      else None)"

fun hex_num :: "nat \<Rightarrow> string \<Rightarrow> nat option" where
  "hex_num acc [] = Some acc"
| "hex_num acc (c # cs) =
     (case hex_val c of None \<Rightarrow> None | Some d \<Rightarrow> hex_num (16 * acc + d) cs)"

text \<open>
  A \<open>\uXXXX\<close> escape names a UTF-16 code unit; in the byte strings of this model it
  is written in UTF-8.
\<close>

definition utf8 :: "nat \<Rightarrow> string" where
  "utf8 n =
     (if n < 128 then [char_of n]
      else if n < 2048 then [char_of (192 + n div 64), char_of (128 + n mod 64)]
      else [char_of (224 + n div 4096), char_of (128 + (n div 64) mod 64),
            char_of (128 + n mod 64)])"

definition unescape :: "char \<Rightarrow> char option" where
  "unescape e =
     (if e = CHR 0x22 then Some (CHR 0x22)
      else if e = CHR 0x5C then Some (CHR 0x5C)
      else if e = CHR ''/'' then Some (CHR ''/'')
      else if e = CHR ''b'' then Some (CHR 0x08)
      else if e = CHR ''f'' then Some (CHR 0x0C)
      else if e = CHR ''n'' then Some (CHR 0x0A)
      else if e = CHR ''r'' then Some (CHR 0x0D)
      else if e = CHR ''t'' then Some (CHR 0x09)
      else None)"

text \<open>
  The characters of a string literal after its opening quote, up to the closing one;
  \<open>acc\<close> holds the decoded text, reversed. The result is the text and the rest of the
  input.
\<close>

fun string_body :: "string \<Rightarrow> string \<Rightarrow> (string \<times> string) option" where
  "string_body acc [] = None"
| "string_body acc (c # cs) =
     (if c = CHR 0x22 then Some (rev acc, cs)
      else if c = CHR 0x5C then
        (case cs of
           [] \<Rightarrow> None
         | e # es \<Rightarrow>
             if e = CHR ''u'' then
               (if length es < 4 then None
                else (case hex_num 0 (take 4 es) of
                        None \<Rightarrow> None
                      | Some n \<Rightarrow> string_body (rev (utf8 n) @ acc) (drop 4 es)))
             else (case unescape e of
                     None \<Rightarrow> None
                   | Some d \<Rightarrow> string_body (d # acc) es))
      else if (of_char c :: nat) < 32 then None
      else string_body (c # acc) cs)"

text \<open>The digits at the head of a text, which must not be empty, and the rest.\<close>

definition digits1 :: "string \<Rightarrow> (string \<times> string) option" where
  "digits1 s =
     (let ds = takeWhile is_digit s in
      if ds = [] then None else Some (ds, dropWhile is_digit s))"

definition number_int :: "string \<Rightarrow> (string \<times> string) option" where
  "number_int s =
     (case s of
        [] \<Rightarrow> None
      | c # cs \<Rightarrow> if c = CHR ''0'' then Some ([c], cs) else digits1 s)"

definition number_frac :: "string \<Rightarrow> (string \<times> string) option" where
  "number_frac s =
     (case s of
        [] \<Rightarrow> Some ([], s)
      | c # cs \<Rightarrow>
          if c = CHR ''.'' then
            (case digits1 cs of None \<Rightarrow> None | Some (ds, r) \<Rightarrow> Some (c # ds, r))
          else Some ([], s))"

definition number_exp :: "string \<Rightarrow> (string \<times> string) option" where
  "number_exp s =
     (case s of
        [] \<Rightarrow> Some ([], s)
      | c # cs \<Rightarrow>
          if c = CHR ''e'' \<or> c = CHR ''E'' then
            (case cs of
               [] \<Rightarrow> None
             | d # ds \<Rightarrow>
                 if d = CHR ''+'' \<or> d = CHR ''-'' then
                   (case digits1 ds of None \<Rightarrow> None | Some (xs, r) \<Rightarrow> Some (c # d # xs, r))
                 else (case digits1 cs of None \<Rightarrow> None | Some (xs, r) \<Rightarrow> Some (c # xs, r)))
          else Some ([], s))"

definition number_lit :: "string \<Rightarrow> (string \<times> string) option" where
  "number_lit s =
     (let (sign, s1) = (case s of
                          [] \<Rightarrow> ([], s)
                        | c # cs \<Rightarrow> if c = CHR ''-'' then ([c], cs) else ([], s))
      in case number_int s1 of
           None \<Rightarrow> None
         | Some (i, s2) \<Rightarrow>
             (case number_frac s2 of
                None \<Rightarrow> None
              | Some (f, s3) \<Rightarrow>
                  (case number_exp s3 of
                     None \<Rightarrow> None
                   | Some (e, s4) \<Rightarrow> Some (sign @ i @ f @ e, s4))))"

text \<open>
  A value, the elements of an array and the members of an object, each with the rest
  of the input. The first argument bounds the depth of the calls; every call is made
  after a character has been read, so a bound above the length of the text is never
  reached.
\<close>

fun parse_value :: "nat \<Rightarrow> string \<Rightarrow> (json \<times> string) option"
  and parse_elements :: "nat \<Rightarrow> json list \<Rightarrow> string \<Rightarrow> (json list \<times> string) option"
  and parse_members ::
    "nat \<Rightarrow> (string \<times> json) list \<Rightarrow> string \<Rightarrow> ((string \<times> json) list \<times> string) option"
where
  "parse_value 0 s = None"
| "parse_value (Suc n) s =
     (case skip_ws s of
        [] \<Rightarrow> None
      | c # cs \<Rightarrow>
          if c = CHR ''{'' then
            (case skip_ws cs of
               [] \<Rightarrow> None
             | d # ds \<Rightarrow>
                 if d = CHR ''}'' then Some (JObject [], ds)
                 else (case parse_members n [] (d # ds) of
                         None \<Rightarrow> None
                       | Some (ms, r) \<Rightarrow> Some (JObject ms, r)))
          else if c = CHR ''['' then
            (case skip_ws cs of
               [] \<Rightarrow> None
             | d # ds \<Rightarrow>
                 if d = CHR '']'' then Some (JArray [], ds)
                 else (case parse_elements n [] (d # ds) of
                         None \<Rightarrow> None
                       | Some (vs, r) \<Rightarrow> Some (JArray vs, r)))
          else if c = CHR 0x22 then
            (case string_body [] cs of
               None \<Rightarrow> None
             | Some (t, r) \<Rightarrow> Some (JString t, r))
          else if startsWith (c # cs) ''true'' then Some (JBool True, drop 4 (c # cs))
          else if startsWith (c # cs) ''false'' then Some (JBool False, drop 5 (c # cs))
          else if startsWith (c # cs) ''null'' then Some (JNull, drop 4 (c # cs))
          else (case number_lit (c # cs) of
                  None \<Rightarrow> None
                | Some (l, r) \<Rightarrow> Some (JNumber l, r)))"
| "parse_elements 0 acc s = None"
| "parse_elements (Suc n) acc s =
     (case parse_value n s of
        None \<Rightarrow> None
      | Some (v, r) \<Rightarrow>
          (case skip_ws r of
             [] \<Rightarrow> None
           | c # cs \<Rightarrow>
               if c = CHR '','' then parse_elements n (acc @ [v]) cs
               else if c = CHR '']'' then Some (acc @ [v], cs)
               else None))"
| "parse_members 0 acc s = None"
| "parse_members (Suc n) acc s =
     (case skip_ws s of
        [] \<Rightarrow> None
      | q # cs \<Rightarrow>
          if q = CHR 0x22 then
            (case string_body [] cs of
               None \<Rightarrow> None
             | Some (k, r) \<Rightarrow>
                 (case skip_ws r of
                    [] \<Rightarrow> None
                  | c # r2 \<Rightarrow>
                      if c = CHR '':'' then
                        (case parse_value n r2 of
                           None \<Rightarrow> None
                         | Some (v, r3) \<Rightarrow>
                             (case skip_ws r3 of
                                [] \<Rightarrow> None
                              | d # r4 \<Rightarrow>
                                  if d = CHR '','' then parse_members n (AList.update k v acc) r4
                                  else if d = CHR ''}'' then Some (AList.update k v acc, r4)
                                  else None))
                      else None))
          else None)"

definition JSON_parse :: "string \<Rightarrow> json option" where
  "JSON_parse s =
     (case parse_value (Suc (length s)) s of
        None \<Rightarrow> None
      | Some (v, r) \<Rightarrow> if skip_ws r = [] then Some v else None)"

section \<open>Errors and their classification\<close>

text \<open>
  What an operation of the pool throws: an \<open>Error\<close> the pool builds itself, by its
  message; a \<open>TypeError\<close> of the platform; or whatever a collaborator (the protocol
  session, a transport) threw, kept as its text \<open>String(err)\<close>.
\<close>

datatype error =
    Error string
  | TypeError string
  | Thrown string

fun String_of :: "error \<Rightarrow> string" where
  "String_of (Error m) = ''Error: '' @ m"
| "String_of (TypeError m) = ''TypeError: '' @ m"
| "String_of (Thrown t) = t"

definition isConnectionError :: "error \<Rightarrow> bool" where
  "isConnectionError err =
     (let msg = String_of err in
      str_includes msg ''closed'' \<or> str_includes msg ''ECONNREFUSED'' \<or> str_includes msg ''EPIPE'')"

definition isAuthError :: "error \<Rightarrow> bool" where
  "isAuthError err =
     (let msg = toLowerCase (String_of err) in
      str_includes msg ''invalid_token'' \<or>
      str_includes msg ''unauthorized'' \<or>
      str_includes msg ''401'' \<or>
      str_includes msg ''authentication'' \<or>
      str_includes msg ''access token'')"

section \<open>Token extraction\<close>

text \<open>
  \<open>typeof parsed.k === "string" && parsed.k\<close>: the field \<open>k\<close> of the object when it is a
  string that is not empty (the empty string is falsy).
\<close>

definition string_field :: "(string \<times> json) list \<Rightarrow> string \<Rightarrow> string option" where
  "string_field obj k =
     (case map_of obj k of
        Some (JString v) \<Rightarrow> if v \<noteq> [] then Some v else None
      | _ \<Rightarrow> None)"

text \<open>
  The chain \<open>access_token || token || bearer\<close> on a parsed value. A value that is not an
  object has none of the fields (reading them from \<open>null\<close> throws, which the
  \<open>catch\<close> around it swallows).
\<close>

fun fromJson :: "json \<Rightarrow> string option" where
  "fromJson (JObject obj) =
     (case string_field obj ''access_token'' of
        Some t \<Rightarrow> Some t
      | None \<Rightarrow>
          (case string_field obj ''token'' of
             Some t \<Rightarrow> Some t
           | None \<Rightarrow> string_field obj ''bearer''))"
| "fromJson v = None"

text \<open>One \<open>try { JSON.parse(text) ... } catch { }\<close> block.\<close>

definition try_json :: "(string \<Rightarrow> json option) \<Rightarrow> string \<Rightarrow> string option" where
  "try_json parse text = (case parse text of None \<Rightarrow> None | Some parsed \<Rightarrow> fromJson parsed)"

text \<open>The loop over the candidates.\<close>

fun scan_candidates :: "(string \<Rightarrow> json option) \<Rightarrow> string list \<Rightarrow> string option" where
  "scan_candidates parse [] = None"
| "scan_candidates parse (candidate # rest) =
     (case try_json parse candidate of
        Some t \<Rightarrow> Some t
      | None \<Rightarrow> scan_candidates parse rest)"

definition nonempty_lines :: "string \<Rightarrow> string list" where
  "nonempty_lines raw = filter (\<lambda>line. line \<noteq> []) (map trim (split_lines raw))"

definition extractToken :: "(string \<Rightarrow> json option) \<Rightarrow> string \<Rightarrow> string option" where
  "extractToken parse raw =
     (let lines = nonempty_lines raw in
      case scan_candidates parse (rev lines) of
        Some t \<Rightarrow> Some t
      | None \<Rightarrow>
          (case try_json parse raw of
             Some t \<Rightarrow> Some t
           | None \<Rightarrow> if lines = [] then None else Some (last lines)))"

section \<open>The data of the pool\<close>

datatype transport_kind = stdio | http

text \<open>A \<open>Record<string, string>\<close>: keys in the order they were first written.\<close>

type_synonym dict = "(string \<times> string) list"

text \<open>\<open>{ ...a, ...b }\<close>.\<close>

definition spread :: "dict \<Rightarrow> dict \<Rightarrow> dict" where
  "spread a b = fold (\<lambda>(k, v). AList.update k v) b a"

text \<open>
  \<open>ServerConfig\<close> of \<open>config.ts\<close>; an optional field is an \<open>option\<close>. The time to live
  is a number of seconds, here a rational one: what a double holds beyond the
  rationals (\<open>NaN\<close>, the infinities) is left out.
\<close>

record ServerConfig =
  name :: string
  transport :: transport_kind
  command :: "string option"
  args :: "string list option"
  env :: "dict option"
  url :: "string option"
  headers :: "dict option"
  authTokenCommand :: "string option"
  authTokenArgs :: "string list option"
  authTokenRefreshArgs :: "string list option"
  authTokenHeader :: "string option"
  authTokenPrefix :: "string option"
  authTokenTtlSeconds :: "rat option"

record ConnectOptions =
  forceRefreshToken :: "bool option"

text \<open>
  The two transports of the SDK, as the pool builds them. The first field is the
  identity of the object. The subprocess transport has the two hooks \<open>onerror\<close> and
  \<open>onclose\<close>; the pool only ever stores \<open>() => this.markDisconnected(name)\<close> there, so
  a hook is the name it marks.
\<close>

datatype Transport =
    StreamableHTTPClientTransport nat string "dict option"
  | StdioClientTransport nat "string option" "string list option" dict
      (onerror: "string option") (onclose: "string option")

text \<open>
  An entry of the registry. \<open>client\<close> is the identity of the protocol session object,
  \<open>transport_obj\<close> the field \<open>transport\<close> of the source.
\<close>

record ClientEntry =
  config :: ServerConfig
  client :: nat
  transport_obj :: Transport
  connected :: bool

record TokenCacheEntry =
  token :: string
  fetchedAtMs :: int

text \<open>
  What the pool does to the outside, and two calls of its own private methods, in the
  order they happen.
\<close>

datatype event =
    NewClient nat
  | NewTransport nat
  | ConsoleLog string
  | ExecFile string "string list" dict
  | ClientConnect nat Transport
  | ClientListTools nat
  | ClientCallTool nat string string
  | TransportClose Transport
  | CreateTransportCall string "ConnectOptions option"
  | ReconnectCall string "ConnectOptions option"

text \<open>
  The two maps of the pool (a \<open>Map\<close> keeps its keys in insertion order), and the
  events so far.
\<close>

record McpClientPool =
  clients :: "(string \<times> ClientEntry) list"
  tokenCache :: "(string \<times> TokenCacheEntry) list"
  trace :: "event list"

text \<open>What \<open>execFile\<close> hands to its callback: an error with the error stream, or the output.\<close>

datatype proc_result =
    ProcError string string
  | ProcOk string

text \<open>
  The collaborators, each a function of the events so far and of its arguments: the
  clock, the child process, the protocol session (\<open>None\<close> or \<open>Inr\<close> is success, the
  string is the text of what was thrown) and the transports; with them the environment
  of the process, which urls \<open>new URL\<close> accepts, and \<open>JSON.parse\<close>. Nothing is assumed
  about them. Every call of a collaborator but the clock adds an event, and the clock is
  read once in a call of \<open>createTransport\<close>, which adds one: a collaborator may answer
  each call differently.
\<close>

record world =
  process_env :: dict
  Date_now :: "event list \<Rightarrow> int"
  URL_valid :: "string \<Rightarrow> bool"
  parseJSON :: "string \<Rightarrow> json option"
  execFile :: "event list \<Rightarrow> string \<Rightarrow> string list \<Rightarrow> dict \<Rightarrow> proc_result"
  client_connect :: "event list \<Rightarrow> nat \<Rightarrow> Transport \<Rightarrow> string option"
  client_listTools :: "event list \<Rightarrow> nat \<Rightarrow> string + string list"
  client_callTool :: "event list \<Rightarrow> nat \<Rightarrow> string \<Rightarrow> string \<Rightarrow> string + string"
  transport_close :: "event list \<Rightarrow> Transport \<Rightarrow> string option"

definition emit :: "event \<Rightarrow> McpClientPool \<Rightarrow> McpClientPool" where
  "emit e s = s\<lparr>trace := trace s @ [e]\<rparr>"

definition empty_pool :: McpClientPool where
  "empty_pool = \<lparr>clients = [], tokenCache = [], trace = []\<rparr>"

section \<open>Credentials\<close>

definition usesAuthTokenCommand :: "ServerConfig \<Rightarrow> bool" where
  "usesAuthTokenCommand cfg =
     (transport cfg = http \<and> (case authTokenCommand cfg of None \<Rightarrow> False | Some c \<Rightarrow> c \<noteq> []))"

definition getTokenTtlMs :: "ServerConfig \<Rightarrow> rat" where
  "getTokenTtlMs cfg =
     (let ttlSeconds = (case authTokenTtlSeconds cfg of None \<Rightarrow> 2700 | Some t \<Rightarrow> t)
      in max 1 ttlSeconds * 1000)"

definition unusable :: error where
  "unusable = Error ''token command did not return a usable token''"

definition runTokenCommand ::
  "world \<Rightarrow> string \<Rightarrow> string list \<Rightarrow> dict option \<Rightarrow> McpClientPool \<Rightarrow> (error + string) \<times> McpClientPool"
where
  "runTokenCommand W cmd as e s =
     (let env' = spread (process_env W) (case e of None \<Rightarrow> [] | Some d \<Rightarrow> d);
          s1 = emit (ExecFile cmd as env') s
      in case execFile W (trace s) cmd as env' of
           ProcError stderr message \<Rightarrow>
             (Inl (Error (''token command failed: '' @
                    join '' | '' (filter (\<lambda>x. x \<noteq> []) [stderr, message]))), s1)
         | ProcOk stdout \<Rightarrow>
             (let raw = trim stdout in
              if raw = [] then (Inl (Error ''token command returned empty output''), s1)
              else (case extractToken (parseJSON W) raw of
                      None \<Rightarrow> (Inl unusable, s1)
                    | Some t \<Rightarrow> if t = [] then (Inl unusable, s1) else (Inr t, s1))))"

definition getAuthToken ::
  "world \<Rightarrow> ServerConfig \<Rightarrow> bool \<Rightarrow> McpClientPool \<Rightarrow> (error + string) \<times> McpClientPool"
where
  "getAuthToken W cfg forceRefresh s =
     (let cache = map_of (tokenCache s) (name cfg);
          now = Date_now W (trace s);
          refetch =
            (let as = (case authTokenArgs cfg of None \<Rightarrow> [] | Some a \<Rightarrow> a) @
                      (if forceRefresh
                       then (case authTokenRefreshArgs cfg of None \<Rightarrow> [] | Some a \<Rightarrow> a)
                       else []);
                 s1 = emit (ConsoleLog (''[mcp-adapter] '' @ name cfg @ '': requesting OAuth token'' @
                        (if forceRefresh then '' (forced refresh)'' else []))) s
             in case authTokenCommand cfg of
                  None \<Rightarrow> (Inl (TypeError ''The file argument must be of type string''), s1)
                | Some cmd \<Rightarrow>
                    (case runTokenCommand W cmd as (env cfg) s1 of
                       (Inl err, s2) \<Rightarrow> (Inl err, s2)
                     | (Inr t, s2) \<Rightarrow>
                         (Inr t, s2\<lparr>tokenCache :=
                            AList.update (name cfg) \<lparr>token = t, fetchedAtMs = now\<rparr> (tokenCache s2)\<rparr>)))
      in case cache of
           None \<Rightarrow> refetch
         | Some c \<Rightarrow>
             if \<not> forceRefresh \<and> of_int (now - fetchedAtMs c) < getTokenTtlMs cfg
             then (Inr (token c), s)
             else refetch)"

section \<open>Transports\<close>

definition buildHttpHeaders ::
  "world \<Rightarrow> ServerConfig \<Rightarrow> ConnectOptions option \<Rightarrow> McpClientPool
     \<Rightarrow> (error + dict option) \<times> McpClientPool"
where
  "buildHttpHeaders W cfg options s =
     (let hs = (case headers cfg of None \<Rightarrow> [] | Some h \<Rightarrow> h) in
      if \<not> usesAuthTokenCommand cfg then (Inr (if hs \<noteq> [] then Some hs else None), s)
      else
        (case getAuthToken W cfg
                (case options of None \<Rightarrow> False | Some opt \<Rightarrow> forceRefreshToken opt = Some True) s of
           (Inl err, s1) \<Rightarrow> (Inl err, s1)
         | (Inr t, s1) \<Rightarrow>
             (let headerName = (case authTokenHeader cfg of
                                  None \<Rightarrow> ''Authorization''
                                | Some h \<Rightarrow> if h \<noteq> [] then h else ''Authorization'');
                  prefix = (case authTokenPrefix cfg of None \<Rightarrow> ''Bearer'' | Some p \<Rightarrow> p)
              in (Inr (Some (AList.update headerName
                               (if prefix \<noteq> [] then prefix @ '' '' @ t else t) hs)), s1))))"

definition createTransport ::
  "world \<Rightarrow> ServerConfig \<Rightarrow> ConnectOptions option \<Rightarrow> McpClientPool
     \<Rightarrow> (error + Transport) \<times> McpClientPool"
where
  "createTransport W cfg options s0 =
     (let s = emit (CreateTransportCall (name cfg) options) s0 in
      if transport cfg = http then
        (case buildHttpHeaders W cfg options s of
           (Inl err, s1) \<Rightarrow> (Inl err, s1)
         | (Inr hs, s1) \<Rightarrow>
             (case url cfg of
                None \<Rightarrow> (Inl (TypeError ''Invalid URL''), s1)
              | Some u \<Rightarrow>
                  if URL_valid W u
                  then (Inr (StreamableHTTPClientTransport (length (trace s1)) u hs),
                        emit (NewTransport (length (trace s1))) s1)
                  else (Inl (TypeError ''Invalid URL''), s1)))
      else
        (Inr (StdioClientTransport (length (trace s)) (command cfg) (args cfg)
                (spread (process_env W) (case env cfg of None \<Rightarrow> [] | Some d \<Rightarrow> d)) None None),
         emit (NewTransport (length (trace s))) s))"

section \<open>The connection manager\<close>

text \<open>
  The methods of the pool run one after the other: each takes the pool and returns its
  result, an error or a value, with the pool after it. A hook called by a transport is
  an event of its own, between two of them.
\<close>

text \<open>\<open>try { await transport.close?.() } catch { }\<close>: what \<open>close\<close> throws is dropped.\<close>

definition close_quietly :: "world \<Rightarrow> Transport \<Rightarrow> McpClientPool \<Rightarrow> McpClientPool" where
  "close_quietly W t s =
     (case transport_close W (trace s) t of
        None \<Rightarrow> emit (TransportClose t) s
      | Some err \<Rightarrow> emit (TransportClose t) s)"

text \<open>\<open>await client.connect(transport)\<close>.\<close>

definition session_connect ::
  "world \<Rightarrow> nat \<Rightarrow> Transport \<Rightarrow> McpClientPool \<Rightarrow> (error + unit) \<times> McpClientPool"
where
  "session_connect W c t s =
     (case client_connect W (trace s) c t of
        None \<Rightarrow> (Inr (), emit (ClientConnect c t) s)
      | Some err \<Rightarrow> (Inl (Thrown err), emit (ClientConnect c t) s))"

text \<open>
  The end of \<open>connect\<close>: the hooks of a subprocess transport are set, and the entry is
  written under the name of the configuration.
\<close>

definition install ::
  "ServerConfig \<Rightarrow> nat \<Rightarrow> Transport \<Rightarrow> McpClientPool \<Rightarrow> (error + nat) \<times> McpClientPool"
where
  "install cfg c t s =
     (let t' = (case t of
                  StdioClientTransport i cmd as e h1 h2 \<Rightarrow>
                    StdioClientTransport i cmd as e (Some (name cfg)) (Some (name cfg))
                | StreamableHTTPClientTransport i u hs \<Rightarrow> t)
      in (Inr c, s\<lparr>clients :=
            AList.update (name cfg)
              \<lparr>config = cfg, client = c, transport_obj = t', connected = True\<rparr> (clients s)\<rparr>))"

definition connect ::
  "world \<Rightarrow> ServerConfig \<Rightarrow> ConnectOptions option \<Rightarrow> McpClientPool \<Rightarrow> (error + nat) \<times> McpClientPool"
where
  "connect W cfg options s =
     (let c = length (trace s); s1 = emit (NewClient c) s in
      case createTransport W cfg options s1 of
        (Inl err, s2) \<Rightarrow> (Inl err, s2)
      | (Inr t, s2) \<Rightarrow>
          (case session_connect W c t s2 of
             (Inr u, s3) \<Rightarrow> install cfg c t s3
           | (Inl err, s3) \<Rightarrow>
               if usesAuthTokenCommand cfg \<and> isAuthError err \<and>
                  \<not> (case options of None \<Rightarrow> False | Some opt \<Rightarrow> forceRefreshToken opt = Some True)
               then
                 (case createTransport W cfg (Some \<lparr>forceRefreshToken = Some True\<rparr>)
                         (close_quietly W t s3) of
                    (Inl err2, s5) \<Rightarrow> (Inl err2, s5)
                  | (Inr t2, s5) \<Rightarrow>
                      (case session_connect W c t2 s5 of
                         (Inl err2, s6) \<Rightarrow> (Inl err2, s6)
                       | (Inr u, s6) \<Rightarrow> install cfg c t2 s6))
               else (Inl err, s3)))"

definition reconnect ::
  "world \<Rightarrow> string \<Rightarrow> ConnectOptions option \<Rightarrow> McpClientPool \<Rightarrow> (error + unit) \<times> McpClientPool"
where
  "reconnect W serverName options s0 =
     (let s = emit (ReconnectCall serverName options) s0 in
      case map_of (clients s) serverName of
        None \<Rightarrow> (Inr (), s)
      | Some entry \<Rightarrow>
          (case connect W (config entry) options (close_quietly W (transport_obj entry) s) of
             (Inl err, s2) \<Rightarrow> (Inl err, s2)
           | (Inr c, s2) \<Rightarrow> (Inr (), s2)))"

text \<open>\<open>await entry.client.listTools()\<close> and \<open>await entry.client.callTool(...)\<close>.\<close>

definition session_listTools ::
  "world \<Rightarrow> nat \<Rightarrow> McpClientPool \<Rightarrow> (error + string list) \<times> McpClientPool"
where
  "session_listTools W c s =
     (case client_listTools W (trace s) c of
        Inr tools \<Rightarrow> (Inr tools, emit (ClientListTools c) s)
      | Inl err \<Rightarrow> (Inl (Thrown err), emit (ClientListTools c) s))"

definition session_callTool ::
  "world \<Rightarrow> nat \<Rightarrow> string \<Rightarrow> string \<Rightarrow> McpClientPool \<Rightarrow> (error + string) \<times> McpClientPool"
where
  "session_callTool W c toolName as s =
     (case client_callTool W (trace s) c toolName as of
        Inr result \<Rightarrow> (Inr result, emit (ClientCallTool c toolName as) s)
      | Inl err \<Rightarrow> (Inl (Thrown err), emit (ClientCallTool c toolName as) s))"

text \<open>\<open>this.clients.get(serverName)!.client\<close> reads a field of \<open>undefined\<close> when the entry is gone.\<close>

definition no_entry :: error where
  "no_entry = TypeError ''Cannot read properties of undefined''"

definition listTools ::
  "world \<Rightarrow> string \<Rightarrow> McpClientPool \<Rightarrow> (error + string list) \<times> McpClientPool"
where
  "listTools W serverName s =
     (case map_of (clients s) serverName of
        None \<Rightarrow> (Inl (Error (''Unknown server: '' @ serverName)), s)
      | Some entry \<Rightarrow>
          (case session_listTools W (client entry) s of
             (Inr tools, s1) \<Rightarrow> (Inr tools, s1)
           | (Inl err, s1) \<Rightarrow>
               if usesAuthTokenCommand (config entry) \<and> isAuthError err then
                 (case reconnect W serverName (Some \<lparr>forceRefreshToken = Some True\<rparr>) s1 of
                    (Inl err2, s2) \<Rightarrow> (Inl err2, s2)
                  | (Inr u, s2) \<Rightarrow>
                      (case map_of (clients s2) serverName of
                         None \<Rightarrow> (Inl no_entry, s2)
                       | Some refreshed \<Rightarrow> session_listTools W (client refreshed) s2))
               else if \<not> connected entry \<or> isConnectionError err then
                 (case reconnect W serverName None s1 of
                    (Inl err2, s2) \<Rightarrow> (Inl err2, s2)
                  | (Inr u, s2) \<Rightarrow>
                      (case map_of (clients s2) serverName of
                         None \<Rightarrow> (Inl no_entry, s2)
                       | Some refreshed \<Rightarrow> session_listTools W (client refreshed) s2))
               else (Inl err, s1)))"

definition callTool ::
  "world \<Rightarrow> string \<Rightarrow> string \<Rightarrow> string \<Rightarrow> McpClientPool \<Rightarrow> (error + string) \<times> McpClientPool"
where
  "callTool W serverName toolName as s =
     (case map_of (clients s) serverName of
        None \<Rightarrow> (Inl (Error (''Unknown server: '' @ serverName)), s)
      | Some entry \<Rightarrow>
          (case session_callTool W (client entry) toolName as s of
             (Inr result, s1) \<Rightarrow> (Inr result, s1)
           | (Inl err, s1) \<Rightarrow>
               if usesAuthTokenCommand (config entry) \<and> isAuthError err then
                 (case reconnect W serverName (Some \<lparr>forceRefreshToken = Some True\<rparr>) s1 of
                    (Inl err2, s2) \<Rightarrow> (Inl err2, s2)
                  | (Inr u, s2) \<Rightarrow>
                      (case map_of (clients s2) serverName of
                         None \<Rightarrow> (Inl no_entry, s2)
                       | Some refreshed \<Rightarrow> session_callTool W (client refreshed) toolName as s2))
               else if \<not> connected entry \<or> isConnectionError err then
                 (case reconnect W serverName None s1 of
                    (Inl err2, s2) \<Rightarrow> (Inl err2, s2)
                  | (Inr u, s2) \<Rightarrow>
                      (case map_of (clients s2) serverName of
                         None \<Rightarrow> (Inl no_entry, s2)
                       | Some refreshed \<Rightarrow> session_callTool W (client refreshed) toolName as s2))
               else (Inl err, s1)))"

definition markDisconnected :: "string \<Rightarrow> McpClientPool \<Rightarrow> McpClientPool" where
  "markDisconnected serverName s =
     (case map_of (clients s) serverName of
        None \<Rightarrow> s
      | Some entry \<Rightarrow>
          s\<lparr>clients := AList.update serverName (entry\<lparr>connected := False\<rparr>) (clients s)\<rparr>)"

text \<open>A transport calls its \<open>onerror\<close> or its \<open>onclose\<close> hook, if one is set.\<close>

definition fire_onerror :: "Transport \<Rightarrow> McpClientPool \<Rightarrow> McpClientPool" where
  "fire_onerror t s =
     (case t of
        StdioClientTransport i cmd as e (Some n) h2 \<Rightarrow> markDisconnected n s
      | _ \<Rightarrow> s)"

definition fire_onclose :: "Transport \<Rightarrow> McpClientPool \<Rightarrow> McpClientPool" where
  "fire_onclose t s =
     (case t of
        StdioClientTransport i cmd as e h1 (Some n) \<Rightarrow> markDisconnected n s
      | _ \<Rightarrow> s)"

text \<open>\<open>getStatus\<close> returns \<open>{ connected: entry?.connected ?? false }\<close>; the model returns the flag.\<close>

definition getStatus :: "string \<Rightarrow> McpClientPool \<Rightarrow> bool" where
  "getStatus serverName s =
     (case map_of (clients s) serverName of None \<Rightarrow> False | Some entry \<Rightarrow> connected entry)"

definition close :: "world \<Rightarrow> string \<Rightarrow> McpClientPool \<Rightarrow> (error + unit) \<times> McpClientPool" where
  "close W serverName s =
     (case map_of (clients s) serverName of
        None \<Rightarrow> (Inr (), s)
      | Some entry \<Rightarrow>
          (let s1 = close_quietly W (transport_obj entry) s
           in (Inr (), s1\<lparr>clients := AList.delete serverName (clients s1)\<rparr>)))"

text \<open>
  \<open>for (const name of this.clients.keys()) await this.close(name)\<close>: the iterator of a
  \<open>Map\<close> is live, and \<open>close\<close> deletes the key it was given, so the next key is the first
  one left.
\<close>

function closeAll :: "world \<Rightarrow> McpClientPool \<Rightarrow> (error + unit) \<times> McpClientPool" where
  "closeAll W s =
     (case clients s of
        [] \<Rightarrow> (Inr (), s)
      | (serverName, entry) # rest \<Rightarrow>
          (case close W serverName s of
             (Inl err, s1) \<Rightarrow> (Inl err, s1)
           | (Inr u, s1) \<Rightarrow> closeAll W s1))"
  by pat_completeness auto
termination
proof (relation "measure (\<lambda>(W, s). length (clients s))")
  show "wf (measure (\<lambda>(W, s). length (clients s)))"
    by simp
next
  fix W :: world and s :: McpClientPool and x21 x22 serverName entry x2 and y :: unit and s1
  assume cl: "clients s = x21 # x22" and hd: "(serverName, entry) = x21"
    and r: "(x2, s1) = close W serverName s"
  have "clients s1 = AList.delete serverName (clients s)"
    using cl hd r
    by (auto simp: close_def close_quietly_def emit_def Let_def split: option.splits)
  then have "length (clients s1) \<le> length x22"
    using cl hd by (auto simp: AList.delete_eq)
  then show "((W, s1), W, s) \<in> measure (\<lambda>(W, s). length (clients s))"
    using cl by simp
qed

section \<open>Notions the statements use\<close>



text \<open>
  The field \<open>k\<close> of an object is the string \<open>t\<close>, and \<open>t\<close> is not empty; \<open>t\<close> is the
  first such field among \<open>access_token\<close>, \<open>token\<close> and \<open>bearer\<close>.
\<close>

definition nonempty_string_field :: "(string \<times> json) list \<Rightarrow> string \<Rightarrow> string \<Rightarrow> bool" where
  "nonempty_string_field obj k t = (map_of obj k = Some (JString t) \<and> t \<noteq> [])"

definition first_token_field :: "(string \<times> json) list \<Rightarrow> string \<Rightarrow> bool" where
  "first_token_field obj t =
     (nonempty_string_field obj ''access_token'' t \<or>
      (\<nexists>u. nonempty_string_field obj ''access_token'' u) \<and>
        (nonempty_string_field obj ''token'' t \<or>
         (\<nexists>u. nonempty_string_field obj ''token'' u) \<and>
           nonempty_string_field obj ''bearer'' t))"

text \<open>
  Token extraction as the specification words it: the first field that holds a string,
  empty or not, among \<open>access_token\<close>, \<open>token\<close> and \<open>bearer\<close>, from the last line that
  yields one, then from the whole output, then the last line.
\<close>

definition claimed_field :: "(string \<times> json) list \<Rightarrow> string \<Rightarrow> string option" where
  "claimed_field obj k = (case map_of obj k of Some (JString v) \<Rightarrow> Some v | _ \<Rightarrow> None)"

fun claimed_fromJson :: "json \<Rightarrow> string option" where
  "claimed_fromJson (JObject obj) =
     (case claimed_field obj ''access_token'' of
        Some t \<Rightarrow> Some t
      | None \<Rightarrow>
          (case claimed_field obj ''token'' of
             Some t \<Rightarrow> Some t
           | None \<Rightarrow> claimed_field obj ''bearer''))"
| "claimed_fromJson v = None"

definition claimed_try :: "(string \<Rightarrow> json option) \<Rightarrow> string \<Rightarrow> string option" where
  "claimed_try parse text =
     (case parse text of None \<Rightarrow> None | Some parsed \<Rightarrow> claimed_fromJson parsed)"

definition claimed_extractToken :: "(string \<Rightarrow> json option) \<Rightarrow> string \<Rightarrow> string option" where
  "claimed_extractToken parse raw =
     (let lines = nonempty_lines raw in
      case List.find (\<lambda>l. claimed_try parse l \<noteq> None) (rev lines) of
        Some l \<Rightarrow> claimed_try parse l
      | None \<Rightarrow>
          (case claimed_try parse raw of
             Some t \<Rightarrow> Some t
           | None \<Rightarrow> if lines = [] then None else Some (last lines)))"

text \<open>
  How a run of the token command can end, as the specification lists it: with a token,
  with a command failure, or with the empty-output error.
\<close>

definition fetch_outcome :: "error + string \<Rightarrow> bool" where
  "fetch_outcome r =
     ((\<exists>t. r = Inr t) \<or>
      (\<exists>m. r = Inl (Error (''token command failed: '' @ m))) \<or>
      r = Inl (Error ''token command returned empty output''))"

section \<open>Worlds to run the pool in\<close>

text \<open>
  A world where everything succeeds: the token command prints \<open>tok\<close>, the clock stands
  at \<open>0\<close>, sessions connect and answer, transports close.
\<close>

definition calm :: world where
  "calm =
     \<lparr>process_env = [],
      Date_now = (\<lambda>tr. 0),
      URL_valid = (\<lambda>u. True),
      parseJSON = JSON_parse,
      execFile = (\<lambda>tr cmd as e. ProcOk ''tok''),
      client_connect = (\<lambda>tr c t. None),
      client_listTools = (\<lambda>tr c. Inr [''echo'']),
      client_callTool = (\<lambda>tr c toolName as. Inr ''done''),
      transport_close = (\<lambda>tr t. None)\<rparr>"

text \<open>Worlds where the token command fails, and where it prints white space only.\<close>

definition token_denied :: world where
  "token_denied = calm\<lparr>execFile := (\<lambda>tr cmd as e. ProcError ''denied'' ''Command failed: get-token'')\<rparr>"

definition silent :: world where
  "silent = calm\<lparr>execFile := (\<lambda>tr cmd as e. ProcOk [CHR 0x20, LF])\<rparr>"

text \<open>Two configurations: a subprocess server, and an http server with a token command.\<close>

definition local_cfg :: ServerConfig where
  "local_cfg =
     \<lparr>name = ''local'', transport = stdio, command = Some ''srv'', args = None, env = None,
      url = None, headers = None, authTokenCommand = None, authTokenArgs = None,
      authTokenRefreshArgs = None, authTokenHeader = None, authTokenPrefix = None,
      authTokenTtlSeconds = None\<rparr>"

definition remote_cfg :: ServerConfig where
  "remote_cfg =
     \<lparr>name = ''remote'', transport = http, command = None, args = None, env = None,
      url = Some ''https://example.test/mcp'', headers = Some [(''X-Env'', ''prod'')],
      authTokenCommand = Some ''get-token'', authTokenArgs = Some [''--quiet''],
      authTokenRefreshArgs = Some [''--login''], authTokenHeader = None,
      authTokenPrefix = None, authTokenTtlSeconds = None\<rparr>"

section \<open>The freshness of a cached token\<close>



text \<open>The runs of a child process among the events.\<close>

fun is_ExecFile :: "event \<Rightarrow> bool" where
  "is_ExecFile (ExecFile cmd as e) = True"
| "is_ExecFile ev = False"

definition invocations :: "event list \<Rightarrow> event list" where
  "invocations tr = filter is_ExecFile tr"


definition token_env :: "world \<Rightarrow> ServerConfig \<Rightarrow> dict" where
  "token_env W cfg = spread (process_env W) (case env cfg of None \<Rightarrow> [] | Some d \<Rightarrow> d)"



section \<open>The auth header\<close>

text \<open>
  The static headers of a configuration, and the auth header as the specification gives
  it: its name is \<open>Authorization\<close> unless one is configured, its value is the prefix,
  a space and the token, with the prefix \<open>Bearer\<close> unless one is configured, and the
  bare token when the configured prefix is empty.
\<close>

definition static_headers :: "ServerConfig \<Rightarrow> dict" where
  "static_headers cfg = (case headers cfg of None \<Rightarrow> [] | Some h \<Rightarrow> h)"

definition auth_header_name :: "ServerConfig \<Rightarrow> string" where
  "auth_header_name cfg =
     (case authTokenHeader cfg of
        None \<Rightarrow> ''Authorization''
      | Some h \<Rightarrow> if h = [] then ''Authorization'' else h)"

definition auth_header_value :: "ServerConfig \<Rightarrow> string \<Rightarrow> string" where
  "auth_header_value cfg tok =
     (case authTokenPrefix cfg of
        None \<Rightarrow> ''Bearer '' @ tok
      | Some p \<Rightarrow> if p = [] then tok else p @ '' '' @ tok)"

text \<open>The caller asks for a forced refresh: \<open>options?.forceRefreshToken === true\<close>.\<close>

definition forced :: "ConnectOptions option \<Rightarrow> bool" where
  "forced options = (case options of None \<Rightarrow> False | Some opt \<Rightarrow> forceRefreshToken opt = Some True)"

section \<open>Pools to run\<close>

text \<open>
  A pool with the two servers connected, and a world where closing a subprocess
  transport throws.
\<close>

definition two_servers :: McpClientPool where
  "two_servers = snd (connect calm remote_cfg None (snd (connect calm local_cfg None empty_pool)))"

definition close_throws :: world where
  "close_throws =
     calm\<lparr>transport_close :=
       (\<lambda>tr t. case t of
                  StdioClientTransport i cmd as e h1 h2 \<Rightarrow> Some ''Error: kill EPERM''
                | StreamableHTTPClientTransport i u hs \<Rightarrow> None)\<rparr>"

text \<open>The close events of a registry, in its order.\<close>

definition close_events :: "(string \<times> ClientEntry) list \<Rightarrow> event list" where
  "close_events cs = map (\<lambda>(k, entry). TransportClose (transport_obj entry)) cs"

section \<open>The skeleton of a run\<close>

text \<open>
  The events of a credential fetch and of building a transport object are left out of
  the skeleton of a trace: what stays is the sessions built, the calls of
  \<open>createTransport\<close> and \<open>reconnect\<close>, and what is asked of sessions and transports.
\<close>

fun fetch_event :: "event \<Rightarrow> bool" where
  "fetch_event (ConsoleLog line) = True"
| "fetch_event (ExecFile cmd as e) = True"
| "fetch_event (NewTransport i) = True"
| "fetch_event ev = False"

definition skeleton :: "event list \<Rightarrow> event list" where
  "skeleton tr = filter (\<lambda>ev. \<not> fetch_event ev) tr"

text \<open>The options of a forced refresh.\<close>

definition force :: "ConnectOptions option" where
  "force = Some \<lparr>forceRefreshToken = Some True\<rparr>"

text \<open>
  The second attempt of \<open>connect\<close>: a transport is built with forced refresh, the session
  \<open>c\<close>, which is the one built at the start, is established over it, and the entry is
  installed. Whatever fails on the way is the result.
\<close>

definition establish_forced ::
  "world \<Rightarrow> ServerConfig \<Rightarrow> nat \<Rightarrow> McpClientPool \<Rightarrow> (error + nat) \<times> McpClientPool"
where
  "establish_forced W cfg c s =
     (case createTransport W cfg force s of
        (Inl err, s1) \<Rightarrow> (Inl err, s1)
      | (Inr t, s1) \<Rightarrow>
          (case session_connect W c t s1 of
             (Inl err, s2) \<Rightarrow> (Inl err, s2)
           | (Inr u, s2) \<Rightarrow> install cfg c t s2))"

text \<open>
  \<open>connect\<close> as the specification words it: on an auth failure of a server with a token
  command, when the refresh was not forced already, the transport is closed and the
  whole of \<open>connect\<close> is run again with forced refresh.
\<close>

definition claimed_connect ::
  "world \<Rightarrow> ServerConfig \<Rightarrow> ConnectOptions option \<Rightarrow> McpClientPool \<Rightarrow> (error + nat) \<times> McpClientPool"
where
  "claimed_connect W cfg options s =
     (let c = length (trace s); s1 = emit (NewClient c) s in
      case createTransport W cfg options s1 of
        (Inl err, s2) \<Rightarrow> (Inl err, s2)
      | (Inr t, s2) \<Rightarrow>
          (case session_connect W c t s2 of
             (Inr u, s3) \<Rightarrow> install cfg c t s3
           | (Inl err, s3) \<Rightarrow>
               if usesAuthTokenCommand cfg \<and> isAuthError err \<and> \<not> forced options
               then connect W cfg force (close_quietly W t s3)
               else (Inl err, s3)))"

text \<open>
  A world where the first attempt to establish a session is refused as unauthorized,
  and every later one succeeds.
\<close>

fun is_ClientConnect :: "event \<Rightarrow> bool" where
  "is_ClientConnect (ClientConnect c t) = True"
| "is_ClientConnect ev = False"

definition refused_once :: world where
  "refused_once =
     calm\<lparr>client_connect :=
       (\<lambda>tr c t. if filter is_ClientConnect tr = [] then Some ''Error: HTTP 401 Unauthorized''
                  else None)\<rparr>"

section \<open>Recovery, as the specification words it\<close>

text \<open>
  The retry after a reconnect: a failed reconnect is the result; after a successful
  one the operation is asked once of the session now in the registry, and what it
  returns or throws is the result.
\<close>

definition retry_with ::
  "string \<Rightarrow> (nat \<Rightarrow> McpClientPool \<Rightarrow> (error + 'a) \<times> McpClientPool)
     \<Rightarrow> (error + unit) \<times> McpClientPool \<Rightarrow> (error + 'a) \<times> McpClientPool"
where
  "retry_with n ask rs =
     (case rs of
        (Inl err, s2) \<Rightarrow> (Inl err, s2)
      | (Inr u, s2) \<Rightarrow>
          (case map_of (clients s2) n of
             None \<Rightarrow> (Inl no_entry, s2)
           | Some refreshed \<Rightarrow> ask (client refreshed) s2))"

text \<open>
  An operation with its recovery: no entry is the unknown-server error; a failure of a
  server with a token command that is an auth error is followed by a reconnect with
  forced refresh and one retry; otherwise a failure on an unhealthy entry, or one that
  is a connection error, is followed by a plain reconnect and one retry; any other
  failure is the result.
\<close>

definition with_recovery ::
  "world \<Rightarrow> string \<Rightarrow> (nat \<Rightarrow> McpClientPool \<Rightarrow> (error + 'a) \<times> McpClientPool)
     \<Rightarrow> McpClientPool \<Rightarrow> (error + 'a) \<times> McpClientPool"
where
  "with_recovery W n ask s =
     (case map_of (clients s) n of
        None \<Rightarrow> (Inl (Error (''Unknown server: '' @ n)), s)
      | Some entry \<Rightarrow>
          (case ask (client entry) s of
             (Inr x, s1) \<Rightarrow> (Inr x, s1)
           | (Inl err, s1) \<Rightarrow>
               if usesAuthTokenCommand (config entry) \<and> isAuthError err
               then retry_with n ask (reconnect W n force s1)
               else if \<not> connected entry \<or> isConnectionError err
               then retry_with n ask (reconnect W n None s1)
               else (Inl err, s1)))"








definition local_entry :: ClientEntry where
  "local_entry =
     \<lparr>config = local_cfg, client = 0,
      transport_obj =
        StdioClientTransport 2 (Some ''srv'') None [] (Some ''local'') (Some ''local''),
      connected = True\<rparr>"


section \<open>Sequences of operations\<close>

text \<open>
  What can happen to a pool: the operations of its interface, and a transport calling
  one of its hooks.
\<close>

datatype operation =
    Connect ServerConfig "ConnectOptions option"
  | ListTools string
  | CallTool string string string
  | Close string
  | CloseAll
  | HookError Transport
  | HookClose Transport

fun perform :: "world \<Rightarrow> operation \<Rightarrow> McpClientPool \<Rightarrow> McpClientPool" where
  "perform W (Connect cfg options) s = snd (connect W cfg options s)"
| "perform W (ListTools n) s = snd (listTools W n s)"
| "perform W (CallTool n toolName as) s = snd (callTool W n toolName as s)"
| "perform W (Close n) s = snd (close W n s)"
| "perform W CloseAll s = snd (closeAll W s)"
| "perform W (HookError t) s = fire_onerror t s"
| "perform W (HookClose t) s = fire_onclose t s"

definition run :: "world \<Rightarrow> operation list \<Rightarrow> McpClientPool \<Rightarrow> McpClientPool" where
  "run W ops s = foldl (\<lambda>s' op. perform W op s') s ops"

text \<open>
  An event of a forced refresh for the server \<open>n\<close>: a transport built for it with
  forced refresh, or a reconnect of it that is not the plain one.
\<close>

fun forced_event :: "string \<Rightarrow> event \<Rightarrow> bool" where
  "forced_event n (CreateTransportCall m options) = (m = n \<and> forced options)"
| "forced_event n (ReconnectCall m options) = (m = n \<and> options \<noteq> None)"
| "forced_event n ev = False"

definition quiet :: "string \<Rightarrow> event list \<Rightarrow> bool" where
  "quiet n tr = list_all (\<lambda>ev. forced_event n ev = False) tr"

text \<open>
  The registry is keyed by the names of the configurations, and the server \<open>n\<close> has no
  token command.
\<close>

definition keyed :: "McpClientPool \<Rightarrow> bool" where
  "keyed s = (\<forall>k entry. map_of (clients s) k = Some entry \<longrightarrow> name (config entry) = k)"

definition no_token_command :: "string \<Rightarrow> McpClientPool \<Rightarrow> bool" where
  "no_token_command n s =
     (\<forall>entry. map_of (clients s) n = Some entry \<longrightarrow> usesAuthTokenCommand (config entry) = False)"

text \<open>A world where every request fails with an error that is both an auth and a connection error.\<close>

definition dropping :: world where
  "dropping =
     calm\<lparr>client_listTools := (\<lambda>tr c. Inl ''Error: Connection closed (401 Unauthorized)''),
          client_callTool := (\<lambda>tr c toolName as. Inl ''Error: Connection closed (401 Unauthorized)'')\<rparr>"

text \<open>What holds of a pool all along when the server \<open>n\<close> is only ever connected without a token command.\<close>

definition refresh_free :: "string \<Rightarrow> McpClientPool \<Rightarrow> bool" where
  "refresh_free n s = (keyed s \<and> no_token_command n s \<and> quiet n (trace s))"

text \<open>An operation that does not give the server \<open>n\<close> a token command, nor forces a refresh for it.\<close>

fun plain_for :: "string \<Rightarrow> operation \<Rightarrow> bool" where
  "plain_for n (Connect cfg options) =
     (name cfg \<noteq> n \<or> (usesAuthTokenCommand cfg = False \<and> forced options = False))"
| "plain_for n op = True"

section \<open>Strings\<close>




section \<open>Lines and tokens\<close>

lemma trim_Nil_iff: "trim l = [] \<longleftrightarrow> (\<forall>c\<in>set l. is_space c)"
proof
  assume "trim l = []"
  then have "\<forall>x\<in>set (dropWhile is_space l). is_space x"
    by (simp add: trim_def)
  then have "dropWhile is_space l = []"
    by (metis hd_dropWhile hd_in_set)
  then show "\<forall>c\<in>set l. is_space c"
    by simp
next
  assume "\<forall>c\<in>set l. is_space c"
  then show "trim l = []"
    by (auto simp: trim_def dest: set_dropWhileD)
qed

lemma trim_has_visible: "trim x \<noteq> [] \<Longrightarrow> \<exists>c\<in>set (trim x). \<not> is_space c"
proof -
  assume ne: "trim x \<noteq> []"
  let ?d = "dropWhile is_space (rev (dropWhile is_space x))"
  from ne have dne: "?d \<noteq> []" by (simp add: trim_def)
  then have "\<not> is_space (hd ?d)" by (rule hd_dropWhile)
  moreover from dne have "hd ?d \<in> set (trim x)" by (simp add: trim_def)
  ultimately show ?thesis by blast
qed

lemma split_lines_from_visible:
  "\<exists>c\<in>set cur \<union> set s. \<not> is_space c \<Longrightarrow>
   \<exists>l\<in>set (split_lines_from cur s). \<exists>c\<in>set l. \<not> is_space c"
proof (induction cur s rule: split_lines_from.induct)
  case (1 cur)
  then show ?case by simp
next
  case (2 cur c cs)
  have sp: "is_space LF" "is_space CR" by (simp_all add: is_space_def LF_def CR_def)
  show ?case
  proof (cases "c = LF")
    case True
    with 2 sp show ?thesis by auto
  next
    case nlf: False
    show ?thesis
    proof (cases cs)
      case Nil
      with 2 nlf show ?thesis by auto
    next
      case (Cons d ds)
      show ?thesis
      proof (cases "c = CR \<and> d = LF")
        case True
        with 2 nlf Cons sp show ?thesis by auto
      next
        case False
        with 2 nlf Cons show ?thesis by auto
      qed
    qed
  qed
qed

lemma nonempty_lines_exist:
  assumes "\<exists>c\<in>set raw. \<not> is_space c"
  shows "nonempty_lines raw \<noteq> []"
proof -
  from assms obtain l where l: "l \<in> set (split_lines raw)" and v: "\<exists>c\<in>set l. \<not> is_space c"
    using split_lines_from_visible [of "[]" raw] by (auto simp: split_lines_def)
  from v have "trim l \<noteq> []" by (simp add: trim_Nil_iff)
  with l have "trim l \<in> set (nonempty_lines raw)" by (auto simp: nonempty_lines_def)
  then show ?thesis by auto
qed

lemma string_field_nonempty: "string_field obj k = Some t \<Longrightarrow> t \<noteq> []"
  by (auto simp: string_field_def split: option.splits json.splits if_splits)

lemma fromJson_nonempty: "fromJson v = Some t \<Longrightarrow> t \<noteq> []"
  by (cases v) (auto split: option.splits dest: string_field_nonempty)

lemma try_json_nonempty: "try_json parse text = Some t \<Longrightarrow> t \<noteq> []"
  by (auto simp: try_json_def split: option.splits dest: fromJson_nonempty)

lemma scan_candidates_nonempty: "scan_candidates parse cs = Some t \<Longrightarrow> t \<noteq> []"
  by (induction cs) (auto split: option.splits dest: try_json_nonempty)

lemma nonempty_lines_last: "nonempty_lines raw \<noteq> [] \<Longrightarrow> last (nonempty_lines raw) \<noteq> []"
proof -
  assume "nonempty_lines raw \<noteq> []"
  then have "last (nonempty_lines raw) \<in> set (nonempty_lines raw)" by simp
  then show ?thesis by (simp add: nonempty_lines_def)
qed

lemma extractToken_nonempty: "extractToken parse raw = Some t \<Longrightarrow> t \<noteq> []"
  by (auto simp: extractToken_def Let_def split: option.splits if_splits
      dest: scan_candidates_nonempty try_json_nonempty nonempty_lines_last)

lemma extractToken_total:
  assumes "trim out \<noteq> []"
  shows "\<exists>t. extractToken parse (trim out) = Some t \<and> t \<noteq> []"
proof -
  from assms have "nonempty_lines (trim out) \<noteq> []"
    by (intro nonempty_lines_exist trim_has_visible)
  then have "\<exists>t. extractToken parse (trim out) = Some t"
    by (cases "scan_candidates parse (rev (nonempty_lines (trim out)))";
        cases "try_json parse (trim out)"; simp add: extractToken_def Let_def)
  then obtain t where "extractToken parse (trim out) = Some t" ..
  then show ?thesis using extractToken_nonempty by blast
qed

section \<open>Classification of errors\<close>


section \<open>The token command\<close>

lemma runTokenCommand_result:
  "fst (runTokenCommand W cmd as e s) =
     (case execFile W (trace s) cmd as (spread (process_env W) (case e of None \<Rightarrow> [] | Some d \<Rightarrow> d)) of
        ProcError stderr message \<Rightarrow>
          Inl (Error (''token command failed: '' @
                 join '' | '' (filter (\<lambda>x. x \<noteq> []) [stderr, message])))
      | ProcOk out \<Rightarrow>
          if trim out = [] then Inl (Error ''token command returned empty output'')
          else (case extractToken (parseJSON W) (trim out) of
                  None \<Rightarrow> Inl unusable
                | Some t \<Rightarrow> if t = [] then Inl unusable else Inr t))"
  by (simp add: runTokenCommand_def Let_def split: proc_result.splits option.splits)

lemma runTokenCommand_state:
  "snd (runTokenCommand W cmd as e s) =
     emit (ExecFile cmd as (spread (process_env W) (case e of None \<Rightarrow> [] | Some d \<Rightarrow> d))) s"
  by (simp add: runTokenCommand_def Let_def split: proc_result.splits option.splits)

lemma runTokenCommand_outcome: "fetch_outcome (fst (runTokenCommand W cmd as e s))"
proof (cases "execFile W (trace s) cmd as (spread (process_env W) (case e of None \<Rightarrow> [] | Some d \<Rightarrow> d))")
  case (ProcError stderr message)
  then show ?thesis
    by (simp add: runTokenCommand_result fetch_outcome_def)
next
  case (ProcOk out)
  show ?thesis
  proof (cases "trim out = []")
    case True
    with ProcOk show ?thesis
      by (simp add: runTokenCommand_result fetch_outcome_def)
  next
    case False
    then obtain t where "extractToken (parseJSON W) (trim out) = Some t" and "t \<noteq> []"
      using extractToken_total by blast
    with ProcOk False show ?thesis
      by (simp add: runTokenCommand_result fetch_outcome_def)
  qed
qed

lemma fetch_outcome_usable: "fetch_outcome r \<Longrightarrow> r \<noteq> Inl unusable"
  by (auto simp: fetch_outcome_def unusable_def)

lemma getAuthToken_eq:
  "getAuthToken W cfg forceRefresh s =
     (if \<not> forceRefresh \<and>
         (case map_of (tokenCache s) (name cfg) of
            None \<Rightarrow> False
          | Some c \<Rightarrow> of_int (Date_now W (trace s) - fetchedAtMs c) < getTokenTtlMs cfg)
      then (case map_of (tokenCache s) (name cfg) of
              None \<Rightarrow> (Inr [], s)
            | Some c \<Rightarrow> (Inr (token c), s))
      else
        (let s1 = emit (ConsoleLog (''[mcp-adapter] '' @ name cfg @ '': requesting OAuth token'' @
                        (if forceRefresh then '' (forced refresh)'' else []))) s;
             as = (case authTokenArgs cfg of None \<Rightarrow> [] | Some a \<Rightarrow> a) @
                      (if forceRefresh
                       then (case authTokenRefreshArgs cfg of None \<Rightarrow> [] | Some a \<Rightarrow> a)
                       else [])
         in case authTokenCommand cfg of
              None \<Rightarrow> (Inl (TypeError ''The file argument must be of type string''), s1)
            | Some cmd \<Rightarrow>
                (case fst (runTokenCommand W cmd as (env cfg) s1) of
                   Inl err \<Rightarrow> (Inl err, snd (runTokenCommand W cmd as (env cfg) s1))
                 | Inr t \<Rightarrow>
                     (Inr t, (snd (runTokenCommand W cmd as (env cfg) s1))\<lparr>tokenCache :=
                        AList.update (name cfg) \<lparr>token = t, fetchedAtMs = Date_now W (trace s)\<rparr>
                          (tokenCache (snd (runTokenCommand W cmd as (env cfg) s1)))\<rparr>))))"
  unfolding getAuthToken_def Let_def
  by (simp split: option.splits prod.splits sum.splits)

lemma getAuthToken_outcome:
  assumes "authTokenCommand cfg = Some cmd"
  shows "fetch_outcome (fst (getAuthToken W cfg forceRefresh s))"
proof -
  let ?s1 = "emit (ConsoleLog (''[mcp-adapter] '' @ name cfg @ '': requesting OAuth token'' @
                        (if forceRefresh then '' (forced refresh)'' else []))) s"
  let ?as = "(case authTokenArgs cfg of None \<Rightarrow> [] | Some a \<Rightarrow> a) @
                      (if forceRefresh
                       then (case authTokenRefreshArgs cfg of None \<Rightarrow> [] | Some a \<Rightarrow> a)
                       else [])"
  have o: "fetch_outcome (fst (runTokenCommand W cmd ?as (env cfg) ?s1))"
    by (rule runTokenCommand_outcome)
  show ?thesis
  proof (cases "fst (runTokenCommand W cmd ?as (env cfg) ?s1)")
    case (Inl err)
    with o assms show ?thesis
      by (simp add: getAuthToken_eq Let_def fetch_outcome_def split: option.splits)
  next
    case (Inr t)
    with assms show ?thesis
      by (simp add: getAuthToken_eq Let_def fetch_outcome_def split: option.splits)
  qed
qed

text \<open>
  Claim C10. Whenever the output of the token command, trimmed, is not empty, token
  extraction returns a token, and the token is not empty: the last line stands in when
  nothing else does. So a run of the token command never ends in the error "did not
  return a usable token": it yields a token, a command failure or the empty-output
  error, and so does a credential fetch of a server that has a token command.
\<close>

theorem unusable_token_unreachable:
  "(trim out \<noteq> [] \<longrightarrow> (\<exists>t. extractToken parse (trim out) = Some t \<and> t \<noteq> [])) \<and>
   fetch_outcome (fst (runTokenCommand W cmd as e s)) \<and>
   fst (runTokenCommand W cmd as e s) \<noteq> Inl unusable \<and>
   (authTokenCommand cfg = Some cmd' \<longrightarrow>
      fetch_outcome (fst (getAuthToken W cfg forceRefresh s)) \<and>
      fst (getAuthToken W cfg forceRefresh s) \<noteq> Inl unusable)"
proof (intro conjI impI)
  assume "trim out \<noteq> []"
  then show "\<exists>t. extractToken parse (trim out) = Some t \<and> t \<noteq> []"
    by (rule extractToken_total)
next
  show "fetch_outcome (fst (runTokenCommand W cmd as e s))"
    by (rule runTokenCommand_outcome)
next
  show "fst (runTokenCommand W cmd as e s) \<noteq> Inl unusable"
    by (rule fetch_outcome_usable) (rule runTokenCommand_outcome)
next
  assume c: "authTokenCommand cfg = Some cmd'"
  then show "fetch_outcome (fst (getAuthToken W cfg forceRefresh s))"
    by (rule getAuthToken_outcome)
  from c show "fst (getAuthToken W cfg forceRefresh s) \<noteq> Inl unusable"
    by (intro fetch_outcome_usable getAuthToken_outcome)
qed

theorem unusable_token_unreachable_witness:
  "trim '' {}  '' \<noteq> [] \<and>
   extractToken JSON_parse (trim '' {}  '') = Some ''{}'' \<and>
   authTokenCommand remote_cfg = Some ''get-token'' \<and>
   fst (getAuthToken calm remote_cfg True empty_pool) = Inr ''tok'' \<and>
   fst (getAuthToken calm remote_cfg True empty_pool) \<noteq> Inl unusable"
proof -
  have h1: "trim '' {}  '' \<noteq> []" by code_simp
  have h2: "authTokenCommand remote_cfg = Some ''get-token''" by (simp add: remote_cfg_def)
  have v1: "extractToken JSON_parse (trim '' {}  '') = Some ''{}''" by code_simp
  have v2: "fst (getAuthToken calm remote_cfg True empty_pool) = Inr ''tok''" by code_simp
  from unusable_token_unreachable
    [where out = "'' {}  ''" and parse = JSON_parse and cfg = remote_cfg and cmd' = "''get-token''"
       and W = calm and forceRefresh = True and s = empty_pool]
    h1 h2 v1 v2
  show ?thesis by blast
qed

section \<open>The precedence of token extraction\<close>

lemma string_field_iff: "string_field obj k = Some t \<longleftrightarrow> nonempty_string_field obj k t"
  by (auto simp: string_field_def nonempty_string_field_def split: option.splits json.splits)

lemma string_field_None_iff: "string_field obj k = None \<longleftrightarrow> (\<nexists>u. nonempty_string_field obj k u)"
  by (auto simp: string_field_def nonempty_string_field_def split: option.splits json.splits)

lemma first_token_field_eq:
  "first_token_field obj t \<longleftrightarrow>
     (string_field obj ''access_token'' = Some t \<or>
      string_field obj ''access_token'' = None \<and>
        (string_field obj ''token'' = Some t \<or>
         string_field obj ''token'' = None \<and> string_field obj ''bearer'' = Some t))"
  by (simp only: first_token_field_def string_field_iff string_field_None_iff)

lemma fromJson_iff: "fromJson v = Some t \<longleftrightarrow> (\<exists>obj. v = JObject obj \<and> first_token_field obj t)"
proof (cases v)
  case (JObject obj)
  show ?thesis
    unfolding JObject first_token_field_eq
    by (cases "string_field obj ''access_token''"; cases "string_field obj ''token''") simp_all
qed simp_all

lemma try_json_iff:
  "try_json parse text = Some t \<longleftrightarrow> (\<exists>obj. parse text = Some (JObject obj) \<and> first_token_field obj t)"
  by (cases "parse text") (simp_all add: try_json_def fromJson_iff)

lemma scan_candidates_append:
  "scan_candidates parse (xs @ ys) =
     (case scan_candidates parse xs of Some t \<Rightarrow> Some t | None \<Rightarrow> scan_candidates parse ys)"
  by (induction xs) (auto split: option.splits)

lemma scan_candidates_None_iff:
  "scan_candidates parse xs = None \<longleftrightarrow> (\<forall>x\<in>set xs. try_json parse x = None)"
  by (induction xs) (auto split: option.splits)

lemma scan_last_yielding:
  assumes "ls = pre @ [l] @ post" and "try_json parse l = Some t"
    and "\<forall>m\<in>set post. try_json parse m = None"
  shows "scan_candidates parse (rev ls) = Some t"
proof -
  have "scan_candidates parse (rev post) = None"
    using assms(3) by (simp add: scan_candidates_None_iff)
  then show ?thesis
    using assms(1,2) by (simp add: scan_candidates_append)
qed

lemma ex1: \<open>extractToken JSON_parse ''{"access_token":"abc"}'' = Some ''abc''\<close>
  by code_simp
lemma ex2: \<open>extractToken JSON_parse (''noise'' @ [LF] @ ''{"token":"xyz"}'') = Some ''xyz''\<close>
  by code_simp
lemma ex3: \<open>extractToken JSON_parse ''plain-token-value'' = Some ''plain-token-value''\<close>
  by code_simp

text \<open>
  Claim C3, as the specification words it, fails: a field that holds the empty string is
  a string-valued field, and the code passes over it. On the output
  \<open>{"access_token":"","token":"x"}\<close> the code returns \<open>x\<close>, where the first
  string-valued field is the empty \<open>access_token\<close>.
\<close>

theorem extractToken_claimed_counterexample:
  \<open>extractToken JSON_parse ''{"access_token":"","token":"x"}'' = Some ''x'' \<and>
   claimed_extractToken JSON_parse ''{"access_token":"","token":"x"}'' = Some []\<close>
  by code_simp

text \<open>
  Claim C3, amended. Among the trimmed non-empty lines, the last one that parses as a
  JSON object with a field \<open>access_token\<close>, \<open>token\<close> or \<open>bearer\<close> holding a string that
  is not empty gives the token, which is the first such field in that order. When no
  line gives one, the whole output is parsed as one JSON object in the same way. When
  that gives nothing either, the token is the last non-empty line, and there is none
  when there is no such line. Output that is empty once trimmed makes the token command
  fail with the empty-output error. The three outputs of the specification yield
  \<open>abc\<close>, \<open>xyz\<close> and \<open>plain-token-value\<close>.
\<close>

theorem extractToken_precedence:
  \<open>(nonempty_lines raw = pre @ [l] @ post \<and> try_json parse l = Some t \<and>
      (\<forall>m\<in>set post. try_json parse m = None) \<longrightarrow>
      extractToken parse raw = Some t) \<and>
   ((\<forall>m\<in>set (nonempty_lines raw). try_json parse m = None) \<and> try_json parse raw = Some t \<longrightarrow>
      extractToken parse raw = Some t) \<and>
   ((\<forall>m\<in>set (nonempty_lines raw). try_json parse m = None) \<and> try_json parse raw = None \<longrightarrow>
      extractToken parse raw =
        (if nonempty_lines raw = [] then None else Some (last (nonempty_lines raw)))) \<and>
   (try_json parse text = Some t \<longleftrightarrow>
      (\<exists>obj. parse text = Some (JObject obj) \<and> first_token_field obj t)) \<and>
   (execFile W (trace s) cmd as (spread (process_env W) (case e of None \<Rightarrow> [] | Some d \<Rightarrow> d))
        = ProcOk out \<and> trim out = [] \<longrightarrow>
      fst (runTokenCommand W cmd as e s) = Inl (Error ''token command returned empty output'')) \<and>
   extractToken JSON_parse ''{"access_token":"abc"}'' = Some ''abc'' \<and>
   extractToken JSON_parse (''noise'' @ [LF] @ ''{"token":"xyz"}'') = Some ''xyz'' \<and>
   extractToken JSON_parse ''plain-token-value'' = Some ''plain-token-value''\<close>
proof (intro conjI impI)
  assume "nonempty_lines raw = pre @ [l] @ post \<and> try_json parse l = Some t \<and>
      (\<forall>m\<in>set post. try_json parse m = None)"
  then have "scan_candidates parse (rev (nonempty_lines raw)) = Some t"
    using scan_last_yielding by blast
  then show "extractToken parse raw = Some t"
    by (simp add: extractToken_def Let_def)
next
  assume "(\<forall>m\<in>set (nonempty_lines raw). try_json parse m = None) \<and> try_json parse raw = Some t"
  then have "scan_candidates parse (rev (nonempty_lines raw)) = None" and "try_json parse raw = Some t"
    by (simp_all add: scan_candidates_None_iff)
  then show "extractToken parse raw = Some t"
    by (simp add: extractToken_def Let_def)
next
  assume "(\<forall>m\<in>set (nonempty_lines raw). try_json parse m = None) \<and> try_json parse raw = None"
  then have "scan_candidates parse (rev (nonempty_lines raw)) = None" and "try_json parse raw = None"
    by (simp_all add: scan_candidates_None_iff)
  then show "extractToken parse raw =
        (if nonempty_lines raw = [] then None else Some (last (nonempty_lines raw)))"
    by (simp add: extractToken_def Let_def)
next
  show "try_json parse text = Some t \<longleftrightarrow>
      (\<exists>obj. parse text = Some (JObject obj) \<and> first_token_field obj t)"
    by (rule try_json_iff)
next
  assume "execFile W (trace s) cmd as (spread (process_env W) (case e of None \<Rightarrow> [] | Some d \<Rightarrow> d))
        = ProcOk out \<and> trim out = []"
  then show "fst (runTokenCommand W cmd as e s) = Inl (Error ''token command returned empty output'')"
    by (simp add: runTokenCommand_result)
qed (rule ex1 ex2 ex3)+

theorem extractToken_precedence_witness:
  \<open>nonempty_lines (''{"bearer":"b1"}'' @ [CR, LF] @ '' done '') = [] @ [''{"bearer":"b1"}''] @ [''done''] \<and>
   try_json JSON_parse ''{"bearer":"b1"}'' = Some ''b1'' \<and>
   try_json JSON_parse ''done'' = None \<and>
   extractToken JSON_parse (''{"bearer":"b1"}'' @ [CR, LF] @ '' done '') = Some ''b1'' \<and>
   list_all (\<lambda>m. try_json JSON_parse m = None)
     (nonempty_lines (''{'' @ [LF] @ '' "token": "t1"'' @ [LF] @ ''}'')) \<and>
   try_json JSON_parse (''{'' @ [LF] @ '' "token": "t1"'' @ [LF] @ ''}'') = Some ''t1'' \<and>
   extractToken JSON_parse (''{'' @ [LF] @ '' "token": "t1"'' @ [LF] @ ''}'') = Some ''t1'' \<and>
   list_all (\<lambda>m. try_json JSON_parse m = None) (nonempty_lines ''  two words '') \<and>
   try_json JSON_parse ''  two words '' = None \<and>
   nonempty_lines ''  two words '' = [''two words''] \<and>
   extractToken JSON_parse ''  two words '' = Some ''two words'' \<and>
   execFile silent (trace empty_pool) ''get-token'' []
     (spread (process_env silent) (case None of None \<Rightarrow> [] | Some d \<Rightarrow> d)) = ProcOk [CHR 0x20, LF] \<and>
   trim [CHR 0x20, LF] = [] \<and>
   fst (runTokenCommand silent ''get-token'' [] None empty_pool) =
     Inl (Error ''token command returned empty output'')\<close>
proof -
  let ?raw2 = \<open>''{'' @ [LF] @ '' "token": "t1"'' @ [LF] @ ''}''\<close>
  let ?raw3 = \<open>''  two words ''\<close>
  have h1: \<open>nonempty_lines (''{"bearer":"b1"}'' @ [CR, LF] @ '' done '') = [] @ [''{"bearer":"b1"}''] @ [''done'']\<close>
    by code_simp
  have h2: \<open>try_json JSON_parse ''{"bearer":"b1"}'' = Some ''b1''\<close>
    by code_simp
  have h3: \<open>try_json JSON_parse ''done'' = None\<close>
    by code_simp
  from h3 have h4: \<open>\<forall>m\<in>set [''done'']. try_json JSON_parse m = None\<close>
    by simp
  have a1: "list_all (\<lambda>m. try_json JSON_parse m = None) (nonempty_lines ?raw2)"
    by code_simp
  have a2: "try_json JSON_parse ?raw2 = Some ''t1''"
    by code_simp
  have b1: "list_all (\<lambda>m. try_json JSON_parse m = None) (nonempty_lines ?raw3)"
    by code_simp
  have b2: "try_json JSON_parse ?raw3 = None"
    by code_simp
  have b3: "nonempty_lines ?raw3 = [''two words'']"
    by code_simp
  have c1: "execFile silent (trace empty_pool) ''get-token'' []
     (spread (process_env silent) (case None of None \<Rightarrow> [] | Some d \<Rightarrow> d)) = ProcOk [CHR 0x20, LF]"
    by (simp add: silent_def calm_def)
  have c2: "trim [CHR 0x20, LF] = []"
    by code_simp
  note t = extractToken_precedence [where parse = JSON_parse]
  from t [THEN conjunct1, rule_format, OF conjI [OF h1 conjI [OF h2 h4]]]
  have r1: \<open>extractToken JSON_parse (''{"bearer":"b1"}'' @ [CR, LF] @ '' done '') = Some ''b1''\<close> .
  from t [THEN conjunct2, THEN conjunct1, rule_format, of ?raw2 "''t1''"] a1 a2
  have r2: "extractToken JSON_parse ?raw2 = Some ''t1''"
    by (simp add: list_all_iff)
  from t [THEN conjunct2, THEN conjunct2, THEN conjunct1, rule_format, of ?raw3] b1 b2 b3
  have r3: "extractToken JSON_parse ?raw3 = Some ''two words''"
    by (simp add: list_all_iff)
  from t [THEN conjunct2, THEN conjunct2, THEN conjunct2, THEN conjunct2, THEN conjunct1,
      rule_format, OF conjI [OF c1 c2]]
  have r4: "fst (runTokenCommand silent ''get-token'' [] None empty_pool) =
     Inl (Error ''token command returned empty output'')" .
  from h1 h2 h3 r1 a1 a2 r2 b1 b2 b3 r3 c1 c2 r4 show ?thesis
    by blast
qed

section \<open>The token cache\<close>





lemma invocations_single:
  "invocations [ev] = (if is_ExecFile ev then [ev] else [])"
  by (simp add: invocations_def)



section \<open>Building a transport\<close>

lemma buildHttpHeaders_plain:
  "\<not> usesAuthTokenCommand cfg \<Longrightarrow>
   buildHttpHeaders W cfg options s =
     (Inr (if static_headers cfg \<noteq> [] then Some (static_headers cfg) else None), s)"
  by (simp add: buildHttpHeaders_def static_headers_def Let_def)

lemma buildHttpHeaders_auth:
  "usesAuthTokenCommand cfg \<Longrightarrow>
   buildHttpHeaders W cfg options s =
     (case fst (getAuthToken W cfg (forced options) s) of
        Inl err \<Rightarrow> (Inl err, snd (getAuthToken W cfg (forced options) s))
      | Inr tok \<Rightarrow>
          (Inr (Some (AList.update (auth_header_name cfg) (auth_header_value cfg tok)
                        (static_headers cfg))),
           snd (getAuthToken W cfg (forced options) s)))"
  by (cases "getAuthToken W cfg (forced options) s")
     (auto simp: buildHttpHeaders_def static_headers_def Let_def forced_def auth_header_name_def
        auth_header_value_def split: sum.splits option.splits)

lemma createTransport_stdio:
  "transport cfg \<noteq> http \<Longrightarrow>
   createTransport W cfg options s =
     (Inr (StdioClientTransport (Suc (length (trace s))) (command cfg) (args cfg)
             (token_env W cfg) None None),
      s\<lparr>trace := trace s @ [CreateTransportCall (name cfg) options,
                             NewTransport (Suc (length (trace s)))]\<rparr>)"
  by (simp add: createTransport_def Let_def emit_def token_env_def)

lemma createTransport_http:
  "transport cfg = http \<Longrightarrow>
   createTransport W cfg options s =
     (case buildHttpHeaders W cfg options (emit (CreateTransportCall (name cfg) options) s) of
        (Inl err, s1) \<Rightarrow> (Inl err, s1)
      | (Inr hs, s1) \<Rightarrow>
          (case url cfg of
             None \<Rightarrow> (Inl (TypeError ''Invalid URL''), s1)
           | Some u \<Rightarrow>
               if URL_valid W u
               then (Inr (StreamableHTTPClientTransport (length (trace s1)) u hs),
                     emit (NewTransport (length (trace s1))) s1)
               else (Inl (TypeError ''Invalid URL''), s1)))"
  by (simp add: createTransport_def Let_def)

text \<open>
  Claim C9. When \<open>createTransport\<close> returns a transport for an http server, it is the
  streaming-http transport on the configured url, and its request headers are: for a
  server with a token command, the static headers with the auth header written over
  them, named \<open>Authorization\<close> unless a name is configured and holding the prefix
  (\<open>Bearer\<close> unless one is configured), a space and the fetched token, or the bare
  token when the configured prefix is empty; for a server without one, the static
  headers alone. For any other transport kind, and for an http server without a token
  command, no process is run and the token cache stays as it was.
\<close>

theorem http_request_headers:
  "(transport cfg = http \<and> createTransport W cfg options s = (Inr t, s') \<longrightarrow>
      (\<exists>i u hs. t = StreamableHTTPClientTransport i u hs \<and> url cfg = Some u \<and>
         (if usesAuthTokenCommand cfg
          then \<exists>tok l.
                 fst (getAuthToken W cfg (forced options)
                        (emit (CreateTransportCall (name cfg) options) s)) = Inr tok \<and>
                 hs = Some l \<and>
                 map_of l = (map_of (static_headers cfg))
                              (auth_header_name cfg \<mapsto> auth_header_value cfg tok)
          else hs = (if static_headers cfg \<noteq> [] then Some (static_headers cfg) else None)))) \<and>
   (transport cfg \<noteq> http \<or> \<not> usesAuthTokenCommand cfg \<longrightarrow>
      invocations (trace (snd (createTransport W cfg options s))) = invocations (trace s) \<and>
      tokenCache (snd (createTransport W cfg options s)) = tokenCache s)"
proof (intro conjI impI)
  assume a: "transport cfg = http \<and> createTransport W cfg options s = (Inr t, s')"
  let ?s0 = "emit (CreateTransportCall (name cfg) options) s"
  show "\<exists>i u hs. t = StreamableHTTPClientTransport i u hs \<and> url cfg = Some u \<and>
         (if usesAuthTokenCommand cfg
          then \<exists>tok l.
                 fst (getAuthToken W cfg (forced options) ?s0) = Inr tok \<and>
                 hs = Some l \<and>
                 map_of l = (map_of (static_headers cfg))
                              (auth_header_name cfg \<mapsto> auth_header_value cfg tok)
          else hs = (if static_headers cfg \<noteq> [] then Some (static_headers cfg) else None))"
  proof (cases "usesAuthTokenCommand cfg")
    case True
    with a show ?thesis
      by (auto simp: createTransport_http buildHttpHeaders_auth AList.update_conv'
          split: sum.splits option.splits if_splits)
  next
    case False
    with a show ?thesis
      by (auto simp: createTransport_http buildHttpHeaders_plain
          split: option.splits if_splits)
  qed
next
  assume b: "transport cfg \<noteq> http \<or> \<not> usesAuthTokenCommand cfg"
  have "invocations (trace (snd (createTransport W cfg options s))) = invocations (trace s) \<and>
      tokenCache (snd (createTransport W cfg options s)) = tokenCache s"
  proof (cases "transport cfg = http")
    case False
    then show ?thesis
      by (simp add: createTransport_stdio invocations_def)
  next
    case True
    with b have "\<not> usesAuthTokenCommand cfg" by simp
    with True show ?thesis
      by (simp add: createTransport_http buildHttpHeaders_plain invocations_def emit_def
          split: option.splits)
  qed
  then show "invocations (trace (snd (createTransport W cfg options s))) = invocations (trace s)"
    and "tokenCache (snd (createTransport W cfg options s)) = tokenCache s"
    by simp_all
qed

theorem http_request_headers_witness:
  "transport remote_cfg = http \<and> usesAuthTokenCommand remote_cfg \<and>
   fst (createTransport calm remote_cfg None empty_pool) =
     Inr (StreamableHTTPClientTransport 3 ''https://example.test/mcp''
            (Some [(''X-Env'', ''prod''), (''Authorization'', ''Bearer tok'')])) \<and>
   (\<exists>l. Some [(''X-Env'', ''prod''), (''Authorization'', ''Bearer tok'')] = Some l \<and>
        map_of l = (map_of (static_headers remote_cfg))
                     (auth_header_name remote_cfg \<mapsto> auth_header_value remote_cfg ''tok'')) \<and>
   transport local_cfg \<noteq> http \<and>
   invocations (trace (snd (createTransport calm local_cfg None empty_pool))) = invocations []"
proof -
  let ?t = "StreamableHTTPClientTransport 3 ''https://example.test/mcp''
            (Some [(''X-Env'', ''prod''), (''Authorization'', ''Bearer tok'')])"
  have k: "transport remote_cfg = http" "usesAuthTokenCommand remote_cfg"
    by (simp_all add: remote_cfg_def usesAuthTokenCommand_def)
  have v: "fst (createTransport calm remote_cfg None empty_pool) = Inr ?t"
    by code_simp
  have g: "fst (getAuthToken calm remote_cfg (forced None)
                  (emit (CreateTransportCall (name remote_cfg) None) empty_pool)) = Inr ''tok''"
    by code_simp
  have h: "transport remote_cfg = http \<and>
      createTransport calm remote_cfg None empty_pool =
        (Inr ?t, snd (createTransport calm remote_cfg None empty_pool))"
    using k v by (simp add: prod_eq_iff)
  have l: "transport local_cfg \<noteq> http"
    by (simp add: local_cfg_def)
  have e: "trace empty_pool = []"
    by (simp add: empty_pool_def)
  from http_request_headers [THEN conjunct1, rule_format, OF h] k g
  have "\<exists>l. Some [(''X-Env'', ''prod''), (''Authorization'', ''Bearer tok'')] = Some l \<and>
        map_of l = (map_of (static_headers remote_cfg))
                     (auth_header_name remote_cfg \<mapsto> auth_header_value remote_cfg ''tok'')"
    by auto
  moreover from http_request_headers [THEN conjunct2, rule_format, OF disjI1 [OF l]] e
  have "invocations (trace (snd (createTransport calm local_cfg None empty_pool))) = invocations []"
    by simp
  ultimately show ?thesis
    using k v l by blast
qed

section \<open>Closing\<close>

declare closeAll.simps [simp del]

lemma close_absent: "map_of (clients s) n = None \<Longrightarrow> close W n s = (Inr (), s)"
  by (simp add: close_def)

lemma close_quietly_eq: "close_quietly W t s = emit (TransportClose t) s"
  by (simp add: close_quietly_def split: option.splits)

lemma close_present:
  "map_of (clients s) n = Some entry \<Longrightarrow>
   close W n s =
     (Inr (), s\<lparr>clients := AList.delete n (clients s),
               trace := trace s @ [TransportClose (transport_obj entry)]\<rparr>)"
  by (simp add: close_def close_quietly_eq emit_def Let_def)

lemma close_result: "fst (close W n s) = Inr ()"
  by (cases "map_of (clients s) n") (simp_all add: close_absent close_present)

lemma delete_head:
  "k \<notin> fst ` set rest \<Longrightarrow> AList.delete k ((k, v) # rest) = rest"
  by (induction rest) (auto simp: AList.delete_eq)

lemma closeAll_result: "fst (closeAll W s) = Inr () \<and> clients (snd (closeAll W s)) = []"
proof (induction W s rule: closeAll.induct)
  case (1 W s)
  show ?case
  proof (cases "clients s")
    case Nil
    then show ?thesis by (simp add: closeAll.simps [of W s])
  next
    case (Cons p rest)
    obtain k entry where p: "p = (k, entry)" by (cases p)
    obtain u s1 where c: "close W k s = (Inr u, s1)"
      using close_result [of W k s] by (cases "close W k s") auto
    from 1 [OF Cons p [symmetric] c [symmetric]] Cons p c show ?thesis
      by (simp add: closeAll.simps [of W s])
  qed
qed

lemma closeAll_trace:
  "distinct (map fst (clients s)) \<Longrightarrow>
   trace (snd (closeAll W s)) = trace s @ close_events (clients s)"
proof (induction W s rule: closeAll.induct)
  case (1 W s)
  show ?case
  proof (cases "clients s")
    case Nil
    then show ?thesis by (simp add: closeAll.simps [of W s] close_events_def)
  next
    case (Cons p rest)
    obtain k entry where p: "p = (k, entry)" by (cases p)
    let ?s1 = "s\<lparr>clients := AList.delete k (clients s),
               trace := trace s @ [TransportClose (transport_obj entry)]\<rparr>"
    have c: "close W k s = (Inr (), ?s1)"
      using Cons p by (intro close_present) simp
    have d: "AList.delete k (clients s) = rest"
      using "1.prems" Cons p by (simp add: delete_head)
    have "distinct (map fst (clients ?s1))"
      using "1.prems" Cons p d by simp
    from 1(1) [OF Cons p [symmetric] c [symmetric] refl this] d
    have "trace (snd (closeAll W ?s1)) =
            (trace s @ [TransportClose (transport_obj entry)]) @ close_events rest"
      by simp
    with Cons p c show ?thesis
      by (simp add: closeAll.simps [of W s] close_events_def)
  qed
qed

text \<open>
  Claim C6. \<open>close\<close> never throws. For a name without an entry it does nothing. For a
  name with an entry it closes the transport of the entry, whatever that close does,
  and removes the entry. \<open>closeAll\<close> never throws and leaves the registry empty; it
  closes the transport of every entry, in the order of the registry, whether or not a
  close before it threw.
\<close>

theorem close_is_best_effort:
  "fst (close W n s) = Inr () \<and>
   (map_of (clients s) n = None \<longrightarrow> close W n s = (Inr (), s)) \<and>
   (map_of (clients s) n = Some entry \<longrightarrow>
      trace (snd (close W n s)) = trace s @ [TransportClose (transport_obj entry)] \<and>
      clients (snd (close W n s)) = AList.delete n (clients s) \<and>
      map_of (clients (snd (close W n s))) n = None) \<and>
   fst (closeAll W s) = Inr () \<and>
   clients (snd (closeAll W s)) = [] \<and>
   (distinct (map fst (clients s)) \<longrightarrow>
      trace (snd (closeAll W s)) = trace s @ close_events (clients s))"
  by (simp add: close_result close_absent close_present closeAll_result closeAll_trace
      AList.delete_conv)

theorem close_is_best_effort_witness:
  "map fst (clients two_servers) = [''local'', ''remote''] \<and>
   map_of (clients two_servers) ''local'' = Some local_entry \<and>
   transport_close close_throws (trace two_servers) (transport_obj local_entry) =
     Some ''Error: kill EPERM'' \<and>
   trace (snd (close close_throws ''local'' two_servers)) =
     trace two_servers @ [TransportClose (transport_obj local_entry)] \<and>
   map_of (clients (snd (close close_throws ''local'' two_servers))) ''local'' = None \<and>
   map_of (clients two_servers) ''absent'' = None \<and>
   close close_throws ''absent'' two_servers = (Inr (), two_servers) \<and>
   distinct (map fst (clients two_servers)) \<and>
   fst (closeAll close_throws two_servers) = Inr () \<and>
   clients (snd (closeAll close_throws two_servers)) = [] \<and>
   trace (snd (closeAll close_throws two_servers)) =
     trace two_servers @ close_events (clients two_servers)"
proof -
  have k: "map fst (clients two_servers) = [''local'', ''remote'']"
    by code_simp
  have p: "map_of (clients two_servers) ''local'' = Some local_entry"
    by code_simp
  have t: "transport_close close_throws (trace two_servers) (transport_obj local_entry) =
     Some ''Error: kill EPERM''"
    by (simp add: close_throws_def calm_def local_entry_def)
  have a: "map_of (clients two_servers) ''absent'' = None"
    by code_simp
  have d: "distinct (map fst (clients two_servers))"
    by (simp add: k)
  from close_is_best_effort [of close_throws "''local''" two_servers local_entry] p
  have r1: "trace (snd (close close_throws ''local'' two_servers)) =
     trace two_servers @ [TransportClose (transport_obj local_entry)] \<and>
   map_of (clients (snd (close close_throws ''local'' two_servers))) ''local'' = None"
    by blast
  from close_is_best_effort [of close_throws "''absent''" two_servers] a d
  have r2: "close close_throws ''absent'' two_servers = (Inr (), two_servers) \<and>
   fst (closeAll close_throws two_servers) = Inr () \<and>
   clients (snd (closeAll close_throws two_servers)) = [] \<and>
   trace (snd (closeAll close_throws two_servers)) =
     trace two_servers @ close_events (clients two_servers)"
    by simp
  from k p t a d r1 r2 show ?thesis
    by blast
qed

section \<open>The health flag\<close>

lemma getStatus_markDisconnected: "getStatus n (markDisconnected n s) = False"
  by (cases "map_of (clients s) n")
     (simp_all add: getStatus_def markDisconnected_def AList.update_conv')

lemma session_connect_cases:
  "session_connect W c t s = (r, s') \<Longrightarrow>
   s' = emit (ClientConnect c t) s \<and>
   (r = Inr () \<and> client_connect W (trace s) c t = None \<or>
    (\<exists>err. r = Inl (Thrown err) \<and> client_connect W (trace s) c t = Some err))"
  by (auto simp: session_connect_def split: option.splits)

lemma install_stdio:
  "install cfg c (StdioClientTransport i cmd as e h1 h2) s =
     (Inr c, s\<lparr>clients := AList.update (name cfg)
        \<lparr>config = cfg, client = c,
         transport_obj = StdioClientTransport i cmd as e (Some (name cfg)) (Some (name cfg)),
         connected = True\<rparr> (clients s)\<rparr>)"
  by (simp add: install_def)

lemma install_http:
  "install cfg c (StreamableHTTPClientTransport i u hs) s =
     (Inr c, s\<lparr>clients := AList.update (name cfg)
        \<lparr>config = cfg, client = c,
         transport_obj = StreamableHTTPClientTransport i u hs,
         connected = True\<rparr> (clients s)\<rparr>)"
  by (simp add: install_def)

lemma connect_stdio:
  assumes "transport cfg \<noteq> http"
  shows "connect W cfg options s =
     (let c = length (trace s);
          t = StdioClientTransport (Suc (Suc c)) (command cfg) (args cfg) (token_env W cfg) None None;
          s2 = s\<lparr>trace := trace s @ [NewClient c, CreateTransportCall (name cfg) options,
                                       NewTransport (Suc (Suc c))]\<rparr>
      in case client_connect W (trace s2) c t of
           None \<Rightarrow> install cfg c t (emit (ClientConnect c t) s2)
         | Some err \<Rightarrow> (Inl (Thrown err), emit (ClientConnect c t) s2))"
proof -
  have u: "\<not> usesAuthTokenCommand cfg"
    using assms by (simp add: usesAuthTokenCommand_def)
  show ?thesis
    using u assms
    by (simp add: connect_def createTransport_stdio session_connect_def emit_def Let_def
        split: option.splits)
qed

text \<open>
  Claim C8. \<open>getStatus\<close> reports a server healthy exactly when the registry has an
  entry for its name whose health flag is set; a name without an entry is unhealthy.
  When a subprocess transport whose hook marks a name calls that hook, \<open>onclose\<close> or
  \<open>onerror\<close>, the name is unhealthy right after, with no operation in between. And
  \<open>connect\<close> sets both hooks of the subprocess transport it installs to mark the name of
  the configuration, which is healthy once \<open>connect\<close> has returned.
\<close>

theorem status_follows_health_flag:
  "(getStatus n s \<longleftrightarrow> (\<exists>entry. map_of (clients s) n = Some entry \<and> connected entry)) \<and>
   (map_of (clients s) n = None \<longrightarrow> getStatus n s = False) \<and>
   getStatus n (fire_onclose (StdioClientTransport i cmd as e h (Some n)) s) = False \<and>
   getStatus n (fire_onerror (StdioClientTransport i cmd as e (Some n) h) s) = False \<and>
   (transport cfg \<noteq> http \<and> connect W cfg options s = (Inr c, s') \<longrightarrow>
      getStatus (name cfg) s' \<and>
      (\<exists>entry j. map_of (clients s') (name cfg) = Some entry \<and>
         transport_obj entry =
           StdioClientTransport j (command cfg) (args cfg) (token_env W cfg)
             (Some (name cfg)) (Some (name cfg)) \<and>
         getStatus (name cfg) (fire_onclose (transport_obj entry) s') = False \<and>
         getStatus (name cfg) (fire_onerror (transport_obj entry) s') = False))"
proof (intro conjI impI)
  show "getStatus n s \<longleftrightarrow> (\<exists>entry. map_of (clients s) n = Some entry \<and> connected entry)"
    by (cases "map_of (clients s) n") (simp_all add: getStatus_def)
  show "getStatus n (fire_onclose (StdioClientTransport i cmd as e h (Some n)) s) = False"
    by (simp add: fire_onclose_def getStatus_markDisconnected)
  show "getStatus n (fire_onerror (StdioClientTransport i cmd as e (Some n) h) s) = False"
    by (simp add: fire_onerror_def getStatus_markDisconnected)
next
  assume "map_of (clients s) n = None"
  then show "getStatus n s = False" by (simp add: getStatus_def)
next
  assume a: "transport cfg \<noteq> http \<and> connect W cfg options s = (Inr c, s')"
  let ?c = "length (trace s)"
  let ?t = "StdioClientTransport (Suc (Suc ?c)) (command cfg) (args cfg) (token_env W cfg) None None"
  let ?entry = "\<lparr>config = cfg, client = ?c,
         transport_obj = StdioClientTransport (Suc (Suc ?c)) (command cfg) (args cfg)
           (token_env W cfg) (Some (name cfg)) (Some (name cfg)),
         connected = True\<rparr>"
  from a have m: "map_of (clients s') (name cfg) = Some ?entry"
    by (auto simp: connect_stdio install_stdio Let_def AList.update_conv' split: option.splits)
  then show "getStatus (name cfg) s'"
    by (simp add: getStatus_def)
  from m show "\<exists>entry j. map_of (clients s') (name cfg) = Some entry \<and>
         transport_obj entry =
           StdioClientTransport j (command cfg) (args cfg) (token_env W cfg)
             (Some (name cfg)) (Some (name cfg)) \<and>
         getStatus (name cfg) (fire_onclose (transport_obj entry) s') = False \<and>
         getStatus (name cfg) (fire_onerror (transport_obj entry) s') = False"
    by (simp add: fire_onclose_def fire_onerror_def getStatus_markDisconnected)
qed

theorem status_follows_health_flag_witness:
  "transport local_cfg \<noteq> http \<and>
   fst (connect calm local_cfg None empty_pool) = Inr 0 \<and>
   getStatus ''local'' (snd (connect calm local_cfg None empty_pool)) \<and>
   getStatus ''local''
     (fire_onclose (StdioClientTransport 2 (Some ''srv'') None [] (Some ''local'') (Some ''local''))
        (snd (connect calm local_cfg None empty_pool))) = False \<and>
   map_of (clients (snd (connect calm local_cfg None empty_pool))) ''remote'' = None \<and>
   getStatus ''remote'' (snd (connect calm local_cfg None empty_pool)) = False"
proof -
  let ?s = "snd (connect calm local_cfg None empty_pool)"
  have l: "transport local_cfg \<noteq> http"
    by (simp add: local_cfg_def)
  have v: "fst (connect calm local_cfg None empty_pool) = Inr 0"
    by code_simp
  have n: "name local_cfg = ''local''"
    by (simp add: local_cfg_def)
  have r: "map_of (clients ?s) ''remote'' = None"
    by code_simp
  have h: "transport local_cfg \<noteq> http \<and> connect calm local_cfg None empty_pool = (Inr 0, ?s)"
    using l v by (simp add: prod_eq_iff)
  note t = status_follows_health_flag
    [where cfg = local_cfg and W = calm and options = None and s = empty_pool and c = 0 and s' = ?s]
  from t [THEN conjunct2, THEN conjunct2, THEN conjunct2, THEN conjunct2, rule_format, OF h] n
  have "getStatus ''local'' ?s" by simp
  moreover
  from status_follows_health_flag [where n = "''local''" and s = ?s and i = 2
      and cmd = "Some ''srv''" and as = None and e = "[]" and h = "Some ''local''"]
  have "getStatus ''local''
     (fire_onclose (StdioClientTransport 2 (Some ''srv'') None [] (Some ''local'') (Some ''local''))
        ?s) = False" by simp
  moreover
  from status_follows_health_flag [where n = "''remote''" and s = ?s] r
  have "getStatus ''remote'' ?s = False" by simp
  ultimately show ?thesis
    using l v r by blast
qed

section \<open>Connecting\<close>

lemma skeleton_append: "skeleton (xs @ ys) = skeleton xs @ skeleton ys"
  by (simp add: skeleton_def)

lemma skeleton_emit:
  "skeleton (trace (emit ev s)) = skeleton (trace s) @ (if fetch_event ev then [] else [ev])"
  by (simp add: emit_def skeleton_def)

lemma emit_fields: "clients (emit ev s) = clients s" "tokenCache (emit ev s) = tokenCache s"
  "trace (emit ev s) = trace s @ [ev]"
  by (simp_all add: emit_def)

lemma getAuthToken_skeleton:
  "skeleton (trace (snd (getAuthToken W cfg forceRefresh s))) = skeleton (trace s)"
  by (simp add: getAuthToken_eq runTokenCommand_state skeleton_emit Let_def
      split: option.splits sum.splits)

lemma getAuthToken_clients:
  "clients (snd (getAuthToken W cfg forceRefresh s)) = clients s"
  by (simp add: getAuthToken_eq runTokenCommand_state emit_fields Let_def
      split: option.splits sum.splits)

lemma buildHttpHeaders_skeleton:
  "skeleton (trace (snd (buildHttpHeaders W cfg options s))) = skeleton (trace s)"
  by (cases "usesAuthTokenCommand cfg")
     (simp_all add: buildHttpHeaders_plain buildHttpHeaders_auth getAuthToken_skeleton
        split: sum.splits)

lemma buildHttpHeaders_clients:
  "clients (snd (buildHttpHeaders W cfg options s)) = clients s"
  by (cases "usesAuthTokenCommand cfg")
     (simp_all add: buildHttpHeaders_plain buildHttpHeaders_auth getAuthToken_clients
        split: sum.splits)

lemma createTransport_skeleton:
  "skeleton (trace (snd (createTransport W cfg options s))) =
     skeleton (trace s) @ [CreateTransportCall (name cfg) options]"
proof (cases "transport cfg = http")
  case False
  then show ?thesis
    by (simp add: createTransport_stdio skeleton_def)
next
  case True
  let ?s0 = "emit (CreateTransportCall (name cfg) options) s"
  have "skeleton (trace (snd (buildHttpHeaders W cfg options ?s0))) =
          skeleton (trace s) @ [CreateTransportCall (name cfg) options]"
    by (simp add: buildHttpHeaders_skeleton skeleton_emit)
  with True show ?thesis
    by (cases "buildHttpHeaders W cfg options ?s0")
       (auto simp: createTransport_http skeleton_emit split: sum.splits option.splits)
qed

lemma createTransport_clients:
  "clients (snd (createTransport W cfg options s)) = clients s"
proof (cases "transport cfg = http")
  case False
  then show ?thesis
    by (simp add: createTransport_stdio)
next
  case True
  let ?s0 = "emit (CreateTransportCall (name cfg) options) s"
  have "clients (snd (buildHttpHeaders W cfg options ?s0)) = clients s"
    by (simp add: buildHttpHeaders_clients emit_fields)
  with True show ?thesis
    by (cases "buildHttpHeaders W cfg options ?s0")
       (auto simp: createTransport_http emit_fields split: sum.splits option.splits)
qed

lemma session_connect_state: "snd (session_connect W c t s) = emit (ClientConnect c t) s"
  by (simp add: session_connect_def split: option.splits)

lemma install_trace: "trace (snd (install cfg c t s)) = trace s"
  by (simp add: install_def Let_def)

lemma install_result: "fst (install cfg c t s) = Inr c"
  by (simp add: install_def Let_def)

lemma install_clients:
  "\<exists>entry. clients (snd (install cfg c t s)) = AList.update (name cfg) entry (clients s) \<and>
     config entry = cfg \<and> client entry = c \<and> connected entry"
proof -
  let ?e = "\<lparr>config = cfg, client = c,
      transport_obj =
        (case t of
           StdioClientTransport i cmd as e h1 h2 \<Rightarrow>
             StdioClientTransport i cmd as e (Some (name cfg)) (Some (name cfg))
         | StreamableHTTPClientTransport i u hs \<Rightarrow> t),
      connected = True\<rparr>"
  have "clients (snd (install cfg c t s)) = AList.update (name cfg) ?e (clients s)"
    by (simp add: install_def)
  moreover have "config ?e = cfg \<and> client ?e = c \<and> connected ?e"
    by simp
  ultimately show ?thesis
    by blast
qed

text \<open>The four ways through connect.\<close>

lemma connect_build_failed:
  "createTransport W cfg options (emit (NewClient (length (trace s))) s) = (Inl err, s2) \<Longrightarrow>
   connect W cfg options s = (Inl err, s2)"
  by (simp add: connect_def Let_def)

lemma connect_established:
  "createTransport W cfg options (emit (NewClient (length (trace s))) s) = (Inr t, s2) \<Longrightarrow>
   session_connect W (length (trace s)) t s2 = (Inr u, s3) \<Longrightarrow>
   connect W cfg options s = install cfg (length (trace s)) t s3"
  by (simp add: connect_def Let_def)

lemma connect_failed:
  "createTransport W cfg options (emit (NewClient (length (trace s))) s) = (Inr t, s2) \<Longrightarrow>
   session_connect W (length (trace s)) t s2 = (Inl err, s3) \<Longrightarrow>
   \<not> (usesAuthTokenCommand cfg \<and> isAuthError err \<and> \<not> forced options) \<Longrightarrow>
   connect W cfg options s = (Inl err, s3)"
  by (auto simp: connect_def Let_def forced_def)

lemma connect_retried:
  "createTransport W cfg options (emit (NewClient (length (trace s))) s) = (Inr t, s2) \<Longrightarrow>
   session_connect W (length (trace s)) t s2 = (Inl err, s3) \<Longrightarrow>
   usesAuthTokenCommand cfg \<and> isAuthError err \<and> \<not> forced options \<Longrightarrow>
   connect W cfg options s =
     establish_forced W cfg (length (trace s)) (emit (TransportClose t) s3)"
  by (auto simp: connect_def Let_def forced_def establish_forced_def force_def close_quietly_eq
      split: prod.splits sum.splits)

lemma establish_forced_skeleton:
  "\<exists>t2 k. skeleton (trace (snd (establish_forced W cfg c s))) =
     skeleton (trace s) @ CreateTransportCall (name cfg) force # take k [ClientConnect c t2]"
proof (cases "createTransport W cfg force s")
  case (Pair r s1)
  have sk: "skeleton (trace s1) = skeleton (trace s) @ [CreateTransportCall (name cfg) force]"
    using createTransport_skeleton [of W cfg force s] Pair by simp
  show ?thesis
  proof (cases r)
    case (Inl err)
    with Pair sk have "skeleton (trace (snd (establish_forced W cfg c s))) =
      skeleton (trace s) @ CreateTransportCall (name cfg) force # take 0 [ClientConnect c undefined]"
      by (simp add: establish_forced_def)
    then show ?thesis by blast
  next
    case (Inr t)
    have "skeleton (trace (snd (session_connect W c t s1))) =
            skeleton (trace s1) @ [ClientConnect c t]"
      by (simp add: session_connect_state skeleton_emit)
    with Pair Inr sk have "skeleton (trace (snd (establish_forced W cfg c s))) =
      skeleton (trace s) @ CreateTransportCall (name cfg) force # take 1 [ClientConnect c t]"
      by (cases "session_connect W c t s1")
         (auto simp: establish_forced_def install_trace split: sum.splits)
    then show ?thesis by blast
  qed
qed

lemma take_five:
  "take (5 + j) (a # b # c # d # e # xs) = a # b # c # d # e # take j xs"
  by (simp add: eval_nat_numeral)

lemma connect_skeleton:
  "\<exists>t t2 k. 2 \<le> k \<and> (3 < k \<longrightarrow> usesAuthTokenCommand cfg \<and> \<not> forced options) \<and>
     skeleton (trace (snd (connect W cfg options s))) =
       skeleton (trace s) @
         take k [NewClient (length (trace s)), CreateTransportCall (name cfg) options,
                 ClientConnect (length (trace s)) t, TransportClose t,
                 CreateTransportCall (name cfg) force, ClientConnect (length (trace s)) t2]"
  (is "\<exists>t t2 k. ?P t t2 k")
proof -
  let ?c = "length (trace s)"
  let ?s1 = "emit (NewClient ?c) s"
  obtain r s2 where ct: "createTransport W cfg options ?s1 = (r, s2)"
    by (cases "createTransport W cfg options ?s1")
  have sk2: "skeleton (trace s2) =
      skeleton (trace s) @ [NewClient ?c, CreateTransportCall (name cfg) options]"
    using createTransport_skeleton [of W cfg options ?s1] ct by (simp add: skeleton_emit)
  show ?thesis
  proof (cases r)
    case (Inl err)
    with ct have "connect W cfg options s = (Inl err, s2)"
      by (simp add: connect_build_failed)
    with sk2 have "?P undefined undefined 2" by simp
    then show ?thesis by blast
  next
    case (Inr t)
    obtain r3 s3 where sc: "session_connect W ?c t s2 = (r3, s3)"
      by (cases "session_connect W ?c t s2")
    have sk3: "skeleton (trace s3) =
      skeleton (trace s) @ [NewClient ?c, CreateTransportCall (name cfg) options, ClientConnect ?c t]"
      using session_connect_state [of W ?c t s2] sc sk2 by (simp add: skeleton_emit)
    show ?thesis
    proof (cases r3)
      case ok: (Inr u)
      with ct Inr sc have "connect W cfg options s = install cfg ?c t s3"
        by (simp add: connect_established)
      with sk3 have "?P t undefined 3" by (simp add: install_trace)
      then show ?thesis by blast
    next
      case (Inl err)
      show ?thesis
      proof (cases "usesAuthTokenCommand cfg \<and> isAuthError err \<and> \<not> forced options")
        case False
        with ct Inr sc Inl have "connect W cfg options s = (Inl err, s3)"
          by (simp add: connect_failed)
        with sk3 have "?P t undefined 3" by simp
        then show ?thesis by blast
      next
        case True
        with ct Inr sc Inl have c: "connect W cfg options s =
            establish_forced W cfg ?c (emit (TransportClose t) s3)"
          by (simp add: connect_retried)
        obtain t2 j where e: "skeleton (trace (snd (establish_forced W cfg ?c (emit (TransportClose t) s3)))) =
            skeleton (trace (emit (TransportClose t) s3)) @
              CreateTransportCall (name cfg) force # take j [ClientConnect ?c t2]"
          using establish_forced_skeleton by blast
        have "?P t t2 (5 + j)"
          using True c e sk3 by (simp add: skeleton_emit take_five del: take_Suc_Cons)
        then show ?thesis by blast
      qed
    qed
  qed
qed

lemma connect_clients:
  "clients (snd (connect W cfg options s)) = clients s \<and> (\<exists>err. fst (connect W cfg options s) = Inl err) \<or>
   (\<exists>entry. clients (snd (connect W cfg options s)) = AList.update (name cfg) entry (clients s) \<and>
      config entry = cfg \<and> connected entry \<and> fst (connect W cfg options s) = Inr (client entry))"
  (is "?same (connect W cfg options s) \<or> ?inst (connect W cfg options s)")
proof -
  let ?c = "length (trace s)"
  let ?s1 = "emit (NewClient ?c) s"
  have inst: "?inst (install cfg c' t' s')" if "clients s' = clients s" for c' t' s'
    using install_clients [of cfg c' t' s'] that by (auto simp: install_result)
  have ef: "?same (establish_forced W cfg c' s') \<or> ?inst (establish_forced W cfg c' s')"
    if "clients s' = clients s" for c' s'
  proof (cases "createTransport W cfg force s'")
    case (Pair r s1)
    have c1: "clients s1 = clients s"
      using createTransport_clients [of W cfg force s'] Pair that by simp
    show ?thesis
    proof (cases r)
      case (Inl err)
      with Pair c1 show ?thesis by (simp add: establish_forced_def)
    next
      case (Inr t)
      obtain r2 s2 where sc: "session_connect W c' t s1 = (r2, s2)"
        by (cases "session_connect W c' t s1")
      have c2: "clients s2 = clients s"
        using session_connect_state [of W c' t s1] sc c1 by (simp add: emit_fields)
      show ?thesis
      proof (cases r2)
        case (Inl err)
        with Pair Inr sc c2 show ?thesis by (simp add: establish_forced_def)
      next
        case ok: (Inr u)
        with Pair Inr sc have "establish_forced W cfg c' s' = install cfg c' t s2"
          by (simp add: establish_forced_def)
        with inst [OF c2] show ?thesis by simp
      qed
    qed
  qed
  obtain r s2 where ct: "createTransport W cfg options ?s1 = (r, s2)"
    by (cases "createTransport W cfg options ?s1")
  have c2: "clients s2 = clients s"
    using createTransport_clients [of W cfg options ?s1] ct by (simp add: emit_fields)
  show ?thesis
  proof (cases r)
    case (Inl err)
    with ct c2 show ?thesis
      by (simp add: connect_build_failed)
  next
    case (Inr t)
    obtain r3 s3 where sc: "session_connect W ?c t s2 = (r3, s3)"
      by (cases "session_connect W ?c t s2")
    have c3: "clients s3 = clients s"
      using session_connect_state [of W ?c t s2] sc c2 by (simp add: emit_fields)
    show ?thesis
    proof (cases r3)
      case ok: (Inr u)
      with ct Inr sc have "connect W cfg options s = install cfg ?c t s3"
        by (simp add: connect_established)
      with inst [OF c3] show ?thesis by simp
    next
      case (Inl err)
      show ?thesis
      proof (cases "usesAuthTokenCommand cfg \<and> isAuthError err \<and> \<not> forced options")
        case False
        with ct Inr sc Inl have "connect W cfg options s = (Inl err, s3)"
          by (simp add: connect_failed)
        with c3 show ?thesis by simp
      next
        case True
        with ct Inr sc Inl have c: "connect W cfg options s =
            establish_forced W cfg ?c (emit (TransportClose t) s3)"
          by (simp add: connect_retried)
        have "clients (emit (TransportClose t) s3) = clients s"
          using c3 by (simp add: emit_fields)
        from ef [OF this] c show ?thesis by simp
      qed
    qed
  qed
qed

text \<open>
  Claim C2, as the specification words it, fails: the retry is not the whole of
  \<open>connect\<close>. \<open>connect\<close> builds one session object, at its start, and the retry
  establishes that same object over the new transport. Where the first attempt is
  refused as unauthorized, \<open>connect\<close> returns the session \<open>0\<close> it built first; running
  the whole of \<open>connect\<close> again would build and return a second one.
\<close>

theorem connect_claimed_counterexample:
  "fst (connect refused_once remote_cfg None empty_pool) = Inr 0 \<and>
   fst (claimed_connect refused_once remote_cfg None empty_pool) = Inr 7"
  by code_simp

text \<open>
  Claim C2, amended. \<open>connect\<close> builds a fresh session object and a transport. A failure
  to build the transport is the result. When the session is established, the entry is
  installed. When establishing fails, and the server has a token command, and the
  failure is an auth error, and the refresh was not forced already, the transport just
  built is closed, whatever the close does, a transport is built with forced refresh
  and the same session object is established over it: a failure of either is the
  result, and there is no third attempt. Any other failure to establish is the result,
  unchanged. In every run there is one session object, at most two attempts, and a
  second attempt only for a server with a token command when the refresh was not
  forced.
\<close>

theorem connect_retries_once:
  "(createTransport W cfg options (emit (NewClient (length (trace s))) s) = (Inl err, s2) \<longrightarrow>
      connect W cfg options s = (Inl err, s2)) \<and>
   (createTransport W cfg options (emit (NewClient (length (trace s))) s) = (Inr t, s2) \<and>
    session_connect W (length (trace s)) t s2 = (Inr u, s3) \<longrightarrow>
      connect W cfg options s = install cfg (length (trace s)) t s3) \<and>
   (createTransport W cfg options (emit (NewClient (length (trace s))) s) = (Inr t, s2) \<and>
    session_connect W (length (trace s)) t s2 = (Inl err', s3) \<longrightarrow>
      connect W cfg options s =
        (if usesAuthTokenCommand cfg \<and> isAuthError err' \<and> \<not> forced options
         then establish_forced W cfg (length (trace s)) (emit (TransportClose t) s3)
         else (Inl err', s3))) \<and>
   close_quietly W t s3 = emit (TransportClose t) s3 \<and>
   (\<exists>t1 t2 k. 2 \<le> k \<and> (3 < k \<longrightarrow> usesAuthTokenCommand cfg \<and> \<not> forced options) \<and>
      skeleton (trace (snd (connect W cfg options s))) =
        skeleton (trace s) @
          take k [NewClient (length (trace s)), CreateTransportCall (name cfg) options,
                  ClientConnect (length (trace s)) t1, TransportClose t1,
                  CreateTransportCall (name cfg) force, ClientConnect (length (trace s)) t2])"
proof (intro conjI impI)
  assume "createTransport W cfg options (emit (NewClient (length (trace s))) s) = (Inl err, s2)"
  then show "connect W cfg options s = (Inl err, s2)"
    by (rule connect_build_failed)
next
  assume "createTransport W cfg options (emit (NewClient (length (trace s))) s) = (Inr t, s2) \<and>
    session_connect W (length (trace s)) t s2 = (Inr u, s3)"
  then show "connect W cfg options s = install cfg (length (trace s)) t s3"
    by (simp add: connect_established)
next
  assume a: "createTransport W cfg options (emit (NewClient (length (trace s))) s) = (Inr t, s2) \<and>
    session_connect W (length (trace s)) t s2 = (Inl err', s3)"
  show "connect W cfg options s =
        (if usesAuthTokenCommand cfg \<and> isAuthError err' \<and> \<not> forced options
         then establish_forced W cfg (length (trace s)) (emit (TransportClose t) s3)
         else (Inl err', s3))"
  proof (cases "usesAuthTokenCommand cfg \<and> isAuthError err' \<and> \<not> forced options")
    case True
    from connect_retried [OF conjunct1 [OF a] conjunct2 [OF a] True] show ?thesis
      unfolding if_P [OF True] .
  next
    case False
    from connect_failed [OF conjunct1 [OF a] conjunct2 [OF a] False] show ?thesis
      unfolding if_not_P [OF False] .
  qed
next
  show "close_quietly W t s3 = emit (TransportClose t) s3"
    by (rule close_quietly_eq)
next
  show "\<exists>t1 t2 k. 2 \<le> k \<and> (3 < k \<longrightarrow> usesAuthTokenCommand cfg \<and> \<not> forced options) \<and>
      skeleton (trace (snd (connect W cfg options s))) =
        skeleton (trace s) @
          take k [NewClient (length (trace s)), CreateTransportCall (name cfg) options,
                  ClientConnect (length (trace s)) t1, TransportClose t1,
                  CreateTransportCall (name cfg) force, ClientConnect (length (trace s)) t2]"
    by (rule connect_skeleton)
qed

theorem connect_retries_once_witness:
  "fst (createTransport refused_once remote_cfg None
          (emit (NewClient (length (trace empty_pool))) empty_pool)) =
     Inr (StreamableHTTPClientTransport 4 ''https://example.test/mcp''
            (Some [(''X-Env'', ''prod''), (''Authorization'', ''Bearer tok'')])) \<and>
   fst (session_connect refused_once (length (trace empty_pool))
          (StreamableHTTPClientTransport 4 ''https://example.test/mcp''
            (Some [(''X-Env'', ''prod''), (''Authorization'', ''Bearer tok'')]))
          (snd (createTransport refused_once remote_cfg None
                  (emit (NewClient (length (trace empty_pool))) empty_pool)))) =
     Inl (Thrown ''Error: HTTP 401 Unauthorized'') \<and>
   usesAuthTokenCommand remote_cfg \<and>
   isAuthError (Thrown ''Error: HTTP 401 Unauthorized'') \<and>
   forced None = False \<and>
   fst (connect refused_once remote_cfg None empty_pool) = Inr 0 \<and>
   fst (createTransport token_denied remote_cfg None
          (emit (NewClient (length (trace empty_pool))) empty_pool)) =
     Inl (Error ''token command failed: denied | Command failed: get-token'') \<and>
   fst (connect token_denied remote_cfg None empty_pool) =
     Inl (Error ''token command failed: denied | Command failed: get-token'') \<and>
   fst (createTransport calm local_cfg None
          (emit (NewClient (length (trace empty_pool))) empty_pool)) =
     Inr (StdioClientTransport 2 (Some ''srv'') None [] None None) \<and>
   fst (session_connect calm (length (trace empty_pool))
          (StdioClientTransport 2 (Some ''srv'') None [] None None)
          (snd (createTransport calm local_cfg None
                  (emit (NewClient (length (trace empty_pool))) empty_pool)))) = Inr () \<and>
   connect calm local_cfg None empty_pool =
     install local_cfg (length (trace empty_pool))
       (StdioClientTransport 2 (Some ''srv'') None [] None None)
       (snd (session_connect calm (length (trace empty_pool))
          (StdioClientTransport 2 (Some ''srv'') None [] None None)
          (snd (createTransport calm local_cfg None
                  (emit (NewClient (length (trace empty_pool))) empty_pool))))) \<and>
   connect refused_once remote_cfg None empty_pool =
     establish_forced refused_once remote_cfg (length (trace empty_pool))
       (emit (TransportClose (StreamableHTTPClientTransport 4 ''https://example.test/mcp''
            (Some [(''X-Env'', ''prod''), (''Authorization'', ''Bearer tok'')])))
          (snd (session_connect refused_once (length (trace empty_pool))
             (StreamableHTTPClientTransport 4 ''https://example.test/mcp''
               (Some [(''X-Env'', ''prod''), (''Authorization'', ''Bearer tok'')]))
             (snd (createTransport refused_once remote_cfg None
                  (emit (NewClient (length (trace empty_pool))) empty_pool))))))"
proof -
  let ?t = "StreamableHTTPClientTransport 4 ''https://example.test/mcp''
            (Some [(''X-Env'', ''prod''), (''Authorization'', ''Bearer tok'')])"
  let ?c = "length (trace empty_pool)"
  let ?s2 = "snd (createTransport refused_once remote_cfg None (emit (NewClient ?c) empty_pool))"
  let ?s3 = "snd (session_connect refused_once ?c ?t ?s2)"
  have v1: "fst (createTransport refused_once remote_cfg None (emit (NewClient ?c) empty_pool)) = Inr ?t"
    by code_simp
  have v2: "fst (session_connect refused_once ?c ?t ?s2) = Inl (Thrown ''Error: HTTP 401 Unauthorized'')"
    by code_simp
  have u: "usesAuthTokenCommand remote_cfg"
    by (simp add: usesAuthTokenCommand_def remote_cfg_def)
  have a: "isAuthError (Thrown ''Error: HTTP 401 Unauthorized'')"
    by code_simp
  have f: "forced None = False"
    by (simp add: forced_def)
  have r: "fst (connect refused_once remote_cfg None empty_pool) = Inr 0"
    by code_simp
  have h: "createTransport refused_once remote_cfg None (emit (NewClient ?c) empty_pool) = (Inr ?t, ?s2) \<and>
      session_connect refused_once ?c ?t ?s2 = (Inl (Thrown ''Error: HTTP 401 Unauthorized''), ?s3)"
    using v1 v2 by (simp add: prod_eq_iff)
  from connect_retries_once [THEN conjunct2, THEN conjunct2, THEN conjunct1, rule_format, OF h] u a f
  have "connect refused_once remote_cfg None empty_pool =
     establish_forced refused_once remote_cfg ?c (emit (TransportClose ?t) ?s3)"
    by simp
  note first = this
  let ?d2 = "snd (createTransport token_denied remote_cfg None (emit (NewClient ?c) empty_pool))"
  have w1: "fst (createTransport token_denied remote_cfg None (emit (NewClient ?c) empty_pool)) =
      Inl (Error ''token command failed: denied | Command failed: get-token'')"
    by code_simp
  then have "createTransport token_denied remote_cfg None (emit (NewClient ?c) empty_pool) =
      (Inl (Error ''token command failed: denied | Command failed: get-token''), ?d2)"
    by (simp add: prod_eq_iff)
  from connect_retries_once [THEN conjunct1, rule_format, OF this]
  have second: "fst (connect token_denied remote_cfg None empty_pool) =
     Inl (Error ''token command failed: denied | Command failed: get-token'')"
    by simp
  let ?u = "StdioClientTransport 2 (Some ''srv'') None [] None None"
  let ?l2 = "snd (createTransport calm local_cfg None (emit (NewClient ?c) empty_pool))"
  let ?l3 = "snd (session_connect calm ?c ?u ?l2)"
  have x1: "fst (createTransport calm local_cfg None (emit (NewClient ?c) empty_pool)) = Inr ?u"
    by code_simp
  have x2: "fst (session_connect calm ?c ?u ?l2) = Inr ()"
    by code_simp
  have "createTransport calm local_cfg None (emit (NewClient ?c) empty_pool) = (Inr ?u, ?l2) \<and>
      session_connect calm ?c ?u ?l2 = (Inr (), ?l3)"
    using x1 x2 by (simp add: prod_eq_iff)
  from connect_retries_once [THEN conjunct2, THEN conjunct1, rule_format, OF this]
  have third: "connect calm local_cfg None empty_pool = install local_cfg ?c ?u ?l3" .
  from first second third v1 v2 u a f r w1 x1 x2 show ?thesis
    by blast
qed

section \<open>Recovery of a failed request\<close>

lemma listTools_eq: "listTools W n s = with_recovery W n (session_listTools W) s"
  unfolding listTools_def with_recovery_def retry_with_def force_def
  by (rule refl)

lemma callTool_eq:
  "callTool W n toolName as s = with_recovery W n (\<lambda>c. session_callTool W c toolName as) s"
  unfolding callTool_def with_recovery_def retry_with_def force_def
  by (rule refl)






lemma reconnect_eq:
  "reconnect W n options s =
     (case map_of (clients s) n of
        None \<Rightarrow> (Inr (), emit (ReconnectCall n options) s)
      | Some entry \<Rightarrow>
          (case fst (connect W (config entry) options
                 (emit (TransportClose (transport_obj entry)) (emit (ReconnectCall n options) s))) of
             Inl err \<Rightarrow> Inl err
           | Inr c \<Rightarrow> Inr (),
           snd (connect W (config entry) options
                 (emit (TransportClose (transport_obj entry)) (emit (ReconnectCall n options) s)))))"
  by (simp add: reconnect_def Let_def emit_fields close_quietly_eq
      split: option.splits prod.splits sum.splits)















section \<open>Servers without a token command\<close>

lemma take_three: "k \<le> 3 \<Longrightarrow> take k (a # b # c # xs) = take k [a, b, c]"
proof -
  assume "k \<le> 3"
  then have "k = 0 \<or> k = 1 \<or> k = 2 \<or> k = 3" by arith
  then show ?thesis by (auto simp: eval_nat_numeral)
qed

lemma quiet_append: "quiet n (xs @ ys) \<longleftrightarrow> quiet n xs \<and> quiet n ys"
  by (simp add: quiet_def)

lemma quiet_skeleton: "quiet n (skeleton tr) \<longleftrightarrow> quiet n tr"
  by (induction tr) (auto simp: quiet_def skeleton_def elim: fetch_event.elims)

lemma quiet_take: "quiet n xs \<Longrightarrow> quiet n (take k xs)"
  by (auto simp: quiet_def list_all_iff dest: in_set_takeD)

lemma connect_quiet:
  assumes p: "name cfg = n \<longrightarrow> \<not> usesAuthTokenCommand cfg \<and> \<not> forced options"
    and q: "quiet n (trace s)"
  shows "quiet n (trace (snd (connect W cfg options s)))"
proof -
  obtain t t2 k where k: "3 < k \<longrightarrow> usesAuthTokenCommand cfg \<and> \<not> forced options"
    and sk: "skeleton (trace (snd (connect W cfg options s))) =
       skeleton (trace s) @
         take k [NewClient (length (trace s)), CreateTransportCall (name cfg) options,
                 ClientConnect (length (trace s)) t, TransportClose t,
                 CreateTransportCall (name cfg) force, ClientConnect (length (trace s)) t2]"
    using connect_skeleton [of cfg options W s] by blast
  let ?xs = "[NewClient (length (trace s)), CreateTransportCall (name cfg) options,
                 ClientConnect (length (trace s)) t, TransportClose t,
                 CreateTransportCall (name cfg) force, ClientConnect (length (trace s)) t2]"
  have "quiet n (take k ?xs)"
  proof (cases "3 < k")
    case True
    with k p have "name cfg \<noteq> n" by blast
    then have "quiet n ?xs" by (simp add: quiet_def)
    then show ?thesis by (rule quiet_take)
  next
    case False
    then have e: "take k ?xs = take k [NewClient (length (trace s)),
        CreateTransportCall (name cfg) options, ClientConnect (length (trace s)) t]"
      by (intro take_three) simp
    have "quiet n [NewClient (length (trace s)),
        CreateTransportCall (name cfg) options, ClientConnect (length (trace s)) t]"
      using p by (auto simp: quiet_def)
    then show ?thesis unfolding e by (rule quiet_take)
  qed
  with q sk have "quiet n (skeleton (trace (snd (connect W cfg options s))))"
    by (simp add: quiet_append quiet_skeleton)
  then show ?thesis by (simp add: quiet_skeleton)
qed

lemma keyed_update:
  "keyed s \<Longrightarrow> name (config entry) = k \<Longrightarrow> clients s' = AList.update k entry (clients s) \<Longrightarrow> keyed s'"
  by (auto simp: keyed_def AList.update_conv' split: if_splits)

lemma connect_keyed: "keyed s \<Longrightarrow> keyed (snd (connect W cfg options s))"
  using connect_clients [of W cfg options s]
  by (auto simp: keyed_def AList.update_conv' split: if_splits)

lemma connect_no_token_command:
  assumes "name cfg = n \<longrightarrow> \<not> usesAuthTokenCommand cfg" and "no_token_command n s"
  shows "no_token_command n (snd (connect W cfg options s))"
  using connect_clients [of W cfg options s] assms
  by (auto simp: no_token_command_def AList.update_conv' split: if_splits)

lemma connect_refresh_free:
  assumes "name cfg = n \<longrightarrow> \<not> usesAuthTokenCommand cfg \<and> \<not> forced options"
    and "refresh_free n s"
  shows "refresh_free n (snd (connect W cfg options s))"
  using assms
  by (simp add: refresh_free_def connect_keyed connect_no_token_command connect_quiet)

lemma emit_refresh_free:
  "refresh_free n s \<Longrightarrow> forced_event n ev = False \<Longrightarrow> refresh_free n (emit ev s)"
  by (simp add: refresh_free_def keyed_def no_token_command_def emit_fields quiet_def)

lemma reconnect_refresh_free:
  assumes i: "refresh_free n s" and o: "m = n \<longrightarrow> options = None"
  shows "refresh_free n (snd (reconnect W m options s))"
proof (cases "map_of (clients s) m")
  case None
  with i o show ?thesis
    by (auto simp: reconnect_eq intro!: emit_refresh_free)
next
  case (Some entry)
  let ?s1 = "emit (TransportClose (transport_obj entry)) (emit (ReconnectCall m options) s)"
  have nm: "name (config entry) = m"
    using i Some by (simp add: refresh_free_def keyed_def)
  have i1: "refresh_free n ?s1"
    using i o by (auto intro!: emit_refresh_free)
  have "name (config entry) = n \<longrightarrow> \<not> usesAuthTokenCommand (config entry) \<and> \<not> forced options"
    using i Some nm o by (auto simp: refresh_free_def no_token_command_def forced_def)
  from connect_refresh_free [OF this i1] Some show ?thesis
    by (simp add: reconnect_eq)
qed

lemma session_listTools_refresh_free:
  "refresh_free n s \<Longrightarrow> refresh_free n (snd (session_listTools W c s))"
  by (auto simp: session_listTools_def split: sum.splits intro!: emit_refresh_free)

lemma session_callTool_refresh_free:
  "refresh_free n s \<Longrightarrow> refresh_free n (snd (session_callTool W c toolName as s))"
  by (auto simp: session_callTool_def split: sum.splits intro!: emit_refresh_free)

lemma session_listTools_clients: "clients (snd (session_listTools W c s)) = clients s"
  by (simp add: session_listTools_def emit_fields split: sum.splits)

lemma session_callTool_clients: "clients (snd (session_callTool W c toolName as s)) = clients s"
  by (simp add: session_callTool_def emit_fields split: sum.splits)

lemma with_recovery_refresh_free:
  assumes ask: "\<And>c s'. refresh_free n s' \<Longrightarrow> refresh_free n (snd (ask c s'))"
    and cl: "\<And>c s'. clients (snd (ask c s')) = clients s'"
    and i: "refresh_free n s"
  shows "refresh_free n (snd (with_recovery W m ask s))"
proof (cases "map_of (clients s) m")
  case None
  with i show ?thesis by (simp add: with_recovery_def)
next
  case (Some entry)
  obtain r s1 where a: "ask (client entry) s = (r, s1)"
    by (cases "ask (client entry) s")
  have i1: "refresh_free n s1"
    using ask [OF i, of "client entry"] a by simp
  have c1: "clients s1 = clients s"
    using cl [of "client entry" s] a by simp
  have retry: "refresh_free n (snd (retry_with m ask (reconnect W m options s1)))"
    if "m = n \<longrightarrow> options = None" for options
  proof (cases "reconnect W m options s1")
    case (Pair r2 s2)
    have i2: "refresh_free n s2"
      using reconnect_refresh_free [OF i1 that, of W] Pair by simp
    show ?thesis
    proof (cases r2)
      case (Inl err)
      with Pair i2 show ?thesis by (simp add: retry_with_def)
    next
      case (Inr u)
      with Pair i2 ask [OF i2] show ?thesis
        by (cases "map_of (clients s2) m") (simp_all add: retry_with_def)
    qed
  qed
  show ?thesis
  proof (cases r)
    case (Inr x)
    with Some a i1 show ?thesis by (simp add: with_recovery_def)
  next
    case (Inl err)
    show ?thesis
    proof (cases "usesAuthTokenCommand (config entry) \<and> isAuthError err")
      case True
      then have "m \<noteq> n"
        using i Some by (auto simp: refresh_free_def no_token_command_def)
      then have "refresh_free n (snd (retry_with m ask (reconnect W m force s1)))"
        by (intro retry) simp
      with Some a Inl True show ?thesis by (simp add: with_recovery_def)
    next
      case False
      have "refresh_free n (snd (retry_with m ask (reconnect W m None s1)))"
        by (intro retry) simp
      with Some a Inl False i1 show ?thesis by (auto simp: with_recovery_def)
    qed
  qed
qed

lemma close_refresh_free: "refresh_free n s \<Longrightarrow> refresh_free n (snd (close W m s))"
proof (cases "map_of (clients s) m")
  case None
  assume "refresh_free n s"
  with None show ?thesis by (simp add: close_absent)
next
  case (Some entry)
  assume "refresh_free n s"
  with Some show ?thesis
    by (auto simp: close_present refresh_free_def keyed_def no_token_command_def quiet_def
        AList.delete_conv split: if_splits)
qed

lemma closeAll_refresh_free: "refresh_free n s \<Longrightarrow> refresh_free n (snd (closeAll W s))"
proof (induction W s rule: closeAll.induct)
  case (1 W s)
  show ?case
  proof (cases "clients s")
    case Nil
    with 1(2) show ?thesis by (simp add: closeAll.simps [of W s])
  next
    case (Cons p rest)
    obtain k entry where p: "p = (k, entry)" by (cases p)
    obtain u s1 where c: "close W k s = (Inr u, s1)"
      using close_result [of W k s] by (cases "close W k s") auto
    have "refresh_free n s1"
      using close_refresh_free [OF 1(2), of W k] c by simp
    from 1(1) [OF Cons p [symmetric] c [symmetric] refl this] Cons p c show ?thesis
      by (simp add: closeAll.simps [of W s])
  qed
qed

lemma markDisconnected_refresh_free:
  "refresh_free n s \<Longrightarrow> refresh_free n (markDisconnected m s)"
  by (cases "map_of (clients s) m")
     (auto simp: markDisconnected_def refresh_free_def keyed_def no_token_command_def
        AList.update_conv' split: if_splits)

lemma hooks_refresh_free:
  "refresh_free n s \<Longrightarrow> refresh_free n (fire_onerror t s)"
  "refresh_free n s \<Longrightarrow> refresh_free n (fire_onclose t s)"
  by (auto simp: fire_onerror_def fire_onclose_def markDisconnected_refresh_free
      split: Transport.splits option.splits)

lemma perform_refresh_free:
  assumes "plain_for n op" and "refresh_free n s"
  shows "refresh_free n (perform W op s)"
proof (cases op)
  case (Connect cfg options)
  with assms show ?thesis
    by (auto intro!: connect_refresh_free)
next
  case (ListTools m)
  with assms show ?thesis
    by (simp add: listTools_eq with_recovery_refresh_free session_listTools_refresh_free
        session_listTools_clients)
next
  case (CallTool m toolName as)
  with assms show ?thesis
    by (simp add: callTool_eq with_recovery_refresh_free session_callTool_refresh_free
        session_callTool_clients)
next
  case (Close m)
  with assms show ?thesis by (simp add: close_refresh_free)
next
  case CloseAll
  with assms show ?thesis by (simp add: closeAll_refresh_free)
next
  case (HookError t)
  with assms show ?thesis by (simp add: hooks_refresh_free)
next
  case (HookClose t)
  with assms show ?thesis by (simp add: hooks_refresh_free)
qed

lemma run_refresh_free:
  "list_all (plain_for n) ops \<Longrightarrow> refresh_free n s \<Longrightarrow> refresh_free n (run W ops s)"
  unfolding run_def
  by (induction ops arbitrary: s) (simp_all add: perform_refresh_free)

lemma empty_pool_refresh_free: "refresh_free n empty_pool"
  by (simp add: refresh_free_def keyed_def no_token_command_def quiet_def empty_pool_def)

text \<open>
  Claim C7. Take any sequence of operations on a pool that starts empty: connects,
  \<open>listTools\<close>, \<open>callTool\<close>, closes, and hooks called by transports. If every connect under
  the name \<open>n\<close> is of a configuration without a token command (none configured, or a
  transport that is not http), and none of them is asked to force a refresh, then no
  transport is ever built for \<open>n\<close> with forced refresh, and every reconnect of \<open>n\<close> is the
  plain one, which is the recovery from an unhealthy entry or a connection error.
\<close>

theorem no_forced_refresh_without_token_command:
  "list_all (plain_for n) ops \<Longrightarrow>
   CreateTransportCall n force \<notin> set (trace (run W ops empty_pool)) \<and>
   ReconnectCall n force \<notin> set (trace (run W ops empty_pool)) \<and>
   (\<forall>options. ReconnectCall n options \<in> set (trace (run W ops empty_pool)) \<longrightarrow> options = None) \<and>
   (\<forall>options. CreateTransportCall n options \<in> set (trace (run W ops empty_pool)) \<longrightarrow>
      forced options = False)"
proof -
  assume "list_all (plain_for n) ops"
  then have "refresh_free n (run W ops empty_pool)"
    using empty_pool_refresh_free by (rule run_refresh_free)
  then have q: "\<forall>ev\<in>set (trace (run W ops empty_pool)). forced_event n ev = False"
    by (simp add: refresh_free_def quiet_def list_all_iff)
  have f: "forced force" by (simp add: forced_def force_def)
  have "CreateTransportCall n options \<in> set (trace (run W ops empty_pool)) \<longrightarrow> forced options = False"
    for options
    using q by fastforce
  moreover have "ReconnectCall n options \<in> set (trace (run W ops empty_pool)) \<longrightarrow> options = None"
    for options
    using q by fastforce
  ultimately show ?thesis
    using f by (auto simp: force_def)
qed

theorem no_forced_refresh_without_token_command_witness:
  "list_all (plain_for ''local'')
     [Connect local_cfg None, ListTools ''local'', CallTool ''local'' ''echo'' ''{}''] \<and>
   isAuthError (Thrown ''Error: Connection closed (401 Unauthorized)'') \<and>
   CreateTransportCall ''local'' force \<notin> set (trace (run dropping
     [Connect local_cfg None, ListTools ''local'', CallTool ''local'' ''echo'' ''{}''] empty_pool)) \<and>
   ReconnectCall ''local'' force \<notin> set (trace (run dropping
     [Connect local_cfg None, ListTools ''local'', CallTool ''local'' ''echo'' ''{}''] empty_pool)) \<and>
   ReconnectCall ''local'' None \<in> set (trace (run dropping
     [Connect local_cfg None, ListTools ''local'', CallTool ''local'' ''echo'' ''{}''] empty_pool))"
proof -
  let ?ops = "[Connect local_cfg None, ListTools ''local'', CallTool ''local'' ''echo'' ''{}'']"
  have h: "list_all (plain_for ''local'') ?ops"
    by (simp add: local_cfg_def usesAuthTokenCommand_def forced_def)
  have a: "isAuthError (Thrown ''Error: Connection closed (401 Unauthorized)'')"
    by code_simp
  have r: "ReconnectCall ''local'' None \<in> set (trace (run dropping ?ops empty_pool))"
    by code_simp
  from no_forced_refresh_without_token_command [OF h, of dropping] h a r
  show ?thesis by blast
qed

end
